theory Spec2Isabelle
  imports Main
begin

section \<open>Values that cross the boundary of TransactionProvider.tsx\<close>

text \<open>
  The file glues a key store, a GraphQL client and the Helium transaction SDK together.
  Everything it imports is a collaborator whose code lives elsewhere, so the model takes
  each imported function as a field of the record \<open>deps\<close> below and keeps, of each
  imported object type, the fields this file reads or writes.

  A value that may be \<open>undefined\<close> or \<open>null\<close> is an \<open>option\<close>.
\<close>

text \<open>
  A JavaScript \<open>number\<close>. Nonces, amounts, fees and fee parameters are integer
  quantities, so the model keeps the doubles with an integer value (\<open>Num n\<close> stands for
  the double whose value is \<open>n\<close>), \<open>NaN\<close> and the two infinities; doubles with a
  fractional part are left out. \<open>typeof\<close> is \<open>'number'\<close> for each of them.
\<close>

datatype number = Num int | NaN | PosInfinity | NegInfinity

text \<open>A thrown JavaScript \<open>Error\<close>, with its message.\<close>

datatype error = Error string

text \<open>The SDK's \<open>Address\<close>; the file reads its \<open>b58\<close> getter only.\<close>

datatype address = Address (b58: string)

text \<open>The key store's \<open>Keypair\<close>; the file reads \<open>keypair.address\<close> and hands the keypair to \<open>sign\<close>.\<close>

record Keypair =
  address :: address

text \<open>The account of \<open>useAccountStorage().currentAccount\<close>.\<close>

record CSAccount =
  address :: string

datatype CurrencyType = dataCredit | networkToken | testNetworkToken

record Balance =
  integerBalance :: number
  type :: CurrencyType

text \<open>\<open>SendDetails\<close>, lines 22-26.\<close>

record SendDetails =
  payee :: string
  balanceAmount :: Balance
  memo :: string

text \<open>An entry of \<open>PartialPaymentTxn.payments\<close>, lines 30-34.\<close>

record PartialPayment =
  payee :: string
  memo :: "string option"
  amount :: number

text \<open>\<open>PartialPaymentTxn\<close>, lines 28-38.\<close>

record PartialPaymentTxn =
  type :: string
  payments :: "PartialPayment list"
  payer :: "string option"
  nonce :: "number option"
  fee :: "number option"

text \<open>A payment as the SDK's \<open>PaymentV2\<close> takes and keeps it.\<close>

record Payment =
  payee :: address
  amount :: number
  memo :: "string option"

text \<open>The object literal given to \<open>new PaymentV2\<close> at lines 114-124 and 148-162.\<close>

record PaymentV2Options =
  payer :: address
  payments :: "Payment list"
  nonce :: number

text \<open>A \<open>PaymentV2\<close> object: the fields lines 126-136 read, and its signature.\<close>

record PaymentV2 =
  type :: string
  payments :: "Payment list"
  payer :: "address option"
  nonce :: "number option"
  fee :: "number option"
  signature :: "string option"

text \<open>The object literal given to \<open>new TokenBurnV1\<close> at lines 90-96.\<close>

record TokenBurnOptions =
  payer :: address
  payee :: address
  amount :: number
  nonce :: number
  memo :: string

record TokenBurnV1 =
  payer :: "address option"
  payee :: "address option"
  amount :: "number option"
  nonce :: "number option"
  memo :: "string option"
  fee :: "number option"
  signature :: "string option"

text \<open>The object given to \<open>Transaction.config\<close> at line 87.\<close>

record ChainVars =
  dcPayloadSize :: number
  txnFeeMultiplier :: number

text \<open>The GraphQL account query: \<open>data?.account?.nonce\<close> and \<open>data?.account?.speculativeNonce\<close>.\<close>

record Account =
  nonce :: "number option"
  speculativeNonce :: "number option"

record AccountQuery =
  account :: "Account option"

record QueryResult =
  data :: "AccountQuery option"

text \<open>The argument object of \<open>makeBurnTxn\<close>, lines 67-81.\<close>

record BurnArgs =
  amount :: number
  payeeB58 :: string
  nonce :: number
  memo :: string
  dcPayloadSize :: "number option"
  txnFeeMultiplier :: "number option"

text \<open>The result of \<open>makePaymentTxn\<close>, line 139.\<close>

record PaymentResult =
  signedTxn :: PaymentV2
  partialTxn :: PartialPaymentTxn

section \<open>Collaborators and effects\<close>

text \<open>
  The calls that reach outside the file and have an effect or consult the outside world,
  in the order they are made. The pure helpers (\<open>Address.fromB58\<close>, \<open>Address.isValid\<close>,
  \<open>encodeMemoString\<close>) are not logged.
\<close>

datatype call =
    GetKeypair
  | FetchAccount
  | TransactionConfig ChainVars
  | NewTokenBurnV1 TokenBurnOptions
  | NewPaymentV2 PaymentV2Options
  | SignTokenBurnV1 TokenBurnV1 Keypair
  | SignPaymentV2 PaymentV2 Keypair

text \<open>
  The state the operations thread through: the SDK's static fee configuration
  (\<open>Transaction.config\<close> stores its argument there) and the log of calls made so far.
\<close>

record world =
  config :: "ChainVars option"
  calls :: "call list"

text \<open>
  What the hook receives from its imports and from the other hooks (lines 41-59).
  A call that may throw or reject yields \<open>Inl\<close> of the error. \<open>getKeypair\<close> and
  \<open>fetchAccount\<close> are called at most once by each operation, so each is the outcome of
  that one call; \<open>accountData\<close> is the cache-only query result of line 53. The two
  constructors see the static fee configuration in force when they run.
\<close>

record deps =
  getKeypair :: "error + Keypair option"
  currentAccount :: "CSAccount option"
  fetchAccount :: "error + QueryResult"
  accountData :: "AccountQuery option"
  fromB58 :: "string \<Rightarrow> error + address"
  isValid :: "string \<Rightarrow> bool"
  encodeMemoString :: "string \<Rightarrow> string option"
  newTokenBurnV1 :: "ChainVars option \<Rightarrow> TokenBurnOptions \<Rightarrow> error + TokenBurnV1"
  newPaymentV2 :: "ChainVars option \<Rightarrow> PaymentV2Options \<Rightarrow> error + PaymentV2"
  signTokenBurnV1 :: "TokenBurnV1 \<Rightarrow> Keypair \<Rightarrow> error + TokenBurnV1"
  signPaymentV2 :: "PaymentV2 \<Rightarrow> Keypair \<Rightarrow> error + PaymentV2"

definition called :: "call \<Rightarrow> world \<Rightarrow> world" where
  "called c w = w\<lparr>calls := calls w @ [c]\<rparr>"

definition Transaction_config :: "ChainVars \<Rightarrow> world \<Rightarrow> world" where
  "Transaction_config v w = called (TransactionConfig v) (w\<lparr>config := Some v\<rparr>)"

text \<open>JavaScript truthiness of an optional number and of a string.\<close>

primrec truthy :: "number \<Rightarrow> bool" where
  "truthy (Num n) = (n \<noteq> 0)"
| "truthy NaN = False"
| "truthy PosInfinity = True"
| "truthy NegInfinity = True"

definition truthy_num :: "number option \<Rightarrow> bool" where
  "truthy_num v = (case v of None \<Rightarrow> False | Some n \<Rightarrow> truthy n)"

definition truthy_str :: "string \<Rightarrow> bool" where
  "truthy_str s = (s \<noteq> [])"

text \<open>\<open>v || d\<close> on an optional number.\<close>

definition num_or :: "number option \<Rightarrow> number \<Rightarrow> number" where
  "num_or v d = (case v of None \<Rightarrow> d | Some n \<Rightarrow> if truthy n then n else d)"

text \<open>
  \<open>x + 1\<close> on a number, as IEEE 754 double addition rounds it (to nearest, ties to the
  even significand). Between \<open>-2^53\<close> and \<open>2^53 - 1\<close> the sum is exact. From
  \<open>2^53\<close> up to \<open>2^54\<close> in magnitude the doubles are the even integers, \<open>x + 1\<close>
  lies halfway between \<open>x\<close> and \<open>x + 2\<close>, and the one with the even significand (the
  multiple of 4) is taken. Beyond that \<open>x + 1\<close> rounds back to \<open>x\<close>. \<open>NaN\<close> and
  the infinities are unchanged.
\<close>

primrec add_one :: "number \<Rightarrow> number" where
  "add_one (Num n) =
     Num (if - 9007199254740992 \<le> n \<and> n < 9007199254740992 then n + 1
          else if - 18014398509481984 \<le> n \<and> n < 18014398509481984
               then (if even (n div 2) then n else n + 2)
          else n)"
| "add_one NaN = NaN"
| "add_one PosInfinity = PosInfinity"
| "add_one NegInfinity = NegInfinity"

text \<open>
  \<open>Array.prototype.map\<close> with a callback that may throw: the elements are visited in
  order and the first exception ends the loop.
\<close>

primrec array_map :: "('a \<Rightarrow> error + 'b) \<Rightarrow> 'a list \<Rightarrow> error + 'b list" where
  "array_map f [] = Inr []"
| "array_map f (x # xs) =
     (case f x of
        Inl e \<Rightarrow> Inl e
      | Inr y \<Rightarrow> (case array_map f xs of Inl e \<Rightarrow> Inl e | Inr ys \<Rightarrow> Inr (y # ys)))"

section \<open>TransactionProvider.tsx\<close>

text \<open>Lines 18-20: the module constant, \<open>Address.fromB58\<close> of a fixed string.\<close>

definition EMPTY_B58_ADDRESS :: "deps \<Rightarrow> error + address" where
  "EMPTY_B58_ADDRESS d = fromB58 d ''13PuqyWXzPYeXcF1B9ZRx7RLkEygeL374ZABiQdwRSNzASdA1sn''"

text \<open>Lines 86-88: \<open>if (dcPayloadSize && txnFeeMultiplier) Transaction.config(...)\<close>.\<close>

definition configure_fees :: "BurnArgs \<Rightarrow> world \<Rightarrow> world" where
  "configure_fees a w =
     (case BurnArgs.dcPayloadSize a of
        None \<Rightarrow> w
      | Some payloadSize \<Rightarrow>
          (case BurnArgs.txnFeeMultiplier a of
             None \<Rightarrow> w
           | Some multiplier \<Rightarrow>
               if truthy_num (Some payloadSize) \<and> truthy_num (Some multiplier)
               then Transaction_config
                      \<lparr>ChainVars.dcPayloadSize = payloadSize, txnFeeMultiplier = multiplier\<rparr> w
               else w))"

text \<open>Lines 67-99.\<close>

definition makeBurnTxn :: "deps \<Rightarrow> BurnArgs \<Rightarrow> world \<Rightarrow> (error + TokenBurnV1) \<times> world" where
  "makeBurnTxn d a w =
     (let w1 = called GetKeypair w in
      case getKeypair d of
        Inl e \<Rightarrow> (Inl e, w1)
      | Inr None \<Rightarrow> (Inl (Error ''missing keypair''), w1)
      | Inr (Some keypair) \<Rightarrow>
          (case fromB58 d (payeeB58 a) of
             Inl e \<Rightarrow> (Inl e, w1)
           | Inr payee_address \<Rightarrow>
               (let w2 = configure_fees a w1;
                    options = \<lparr>TokenBurnOptions.payer = Keypair.address keypair,
                               payee = payee_address,
                               amount = BurnArgs.amount a,
                               nonce = BurnArgs.nonce a,
                               memo = BurnArgs.memo a\<rparr>;
                    w3 = called (NewTokenBurnV1 options) w2
                in case newTokenBurnV1 d (config w2) options of
                     Inl e \<Rightarrow> (Inl e, w3)
                   | Inr tokenBurnTxn \<Rightarrow>
                       (signTokenBurnV1 d tokenBurnTxn keypair,
                        called (SignTokenBurnV1 tokenBurnTxn keypair) w3))))"

text \<open>Line 108: \<open>typeof freshAccountData?.account?.speculativeNonce\<close>, when it is a number.\<close>

definition fresh_speculativeNonce :: "QueryResult \<Rightarrow> number option" where
  "fresh_speculativeNonce r =
     (case data r of
        None \<Rightarrow> None
      | Some q \<Rightarrow> (case account q of None \<Rightarrow> None | Some acc \<Rightarrow> speculativeNonce acc))"

text \<open>Lines 117-121: the callback of \<open>paymentDetails.map\<close> in \<open>makePaymentTxn\<close>.\<close>

definition payment_of :: "deps \<Rightarrow> SendDetails \<Rightarrow> error + Payment" where
  "payment_of d s =
     (case fromB58 d (SendDetails.payee s) of
        Inl e \<Rightarrow> Inl e
      | Inr a \<Rightarrow> Inr \<lparr>Payment.payee = a,
                      amount = integerBalance (balanceAmount s),
                      memo = encodeMemoString d (SendDetails.memo s)\<rparr>)"

text \<open>Lines 126-136: \<open>txnJson\<close>.\<close>

definition txnJson :: "PaymentV2 \<Rightarrow> PartialPaymentTxn" where
  "txnJson txn =
     \<lparr>PartialPaymentTxn.type = PaymentV2.type txn,
      payments = map (\<lambda>p. \<lparr>PartialPayment.payee = b58 (Payment.payee p),
                             memo = Payment.memo p,
                             amount = Payment.amount p\<rparr>) (PaymentV2.payments txn),
      payer = map_option b58 (PaymentV2.payer txn),
      nonce = PaymentV2.nonce txn,
      fee = PaymentV2.fee txn\<rparr>"

text \<open>Lines 101-140.\<close>

definition makePaymentTxn :: "deps \<Rightarrow> SendDetails list \<Rightarrow> world \<Rightarrow> (error + PaymentResult) \<times> world" where
  "makePaymentTxn d paymentDetails w =
     (let w1 = called GetKeypair w in
      case getKeypair d of
        Inl e \<Rightarrow> (Inl e, w1)
      | Inr None \<Rightarrow> (Inl (Error ''missing keypair''), w1)
      | Inr (Some keypair) \<Rightarrow>
          (let w2 = called FetchAccount w1 in
           case fetchAccount d of
             Inl e \<Rightarrow> (Inl e, w2)
           | Inr fresh \<Rightarrow>
               (case fresh_speculativeNonce fresh of
                  None \<Rightarrow>
                    (Inl (Error ''Could not find speculative nonce for the current account''), w2)
                | Some n \<Rightarrow>
                    (case array_map (payment_of d) paymentDetails of
                       Inl e \<Rightarrow> (Inl e, w2)
                     | Inr ps \<Rightarrow>
                         (let options = \<lparr>PaymentV2Options.payer = Keypair.address keypair,
                                         payments = ps,
                                         nonce = add_one n\<rparr>;
                              w3 = called (NewPaymentV2 options) w2
                          in case newPaymentV2 d (config w2) options of
                               Inl e \<Rightarrow> (Inl e, w3)
                             | Inr txn \<Rightarrow>
                                 (let json = txnJson txn;
                                      w4 = called (SignPaymentV2 txn keypair) w3
                                  in case signPaymentV2 d txn keypair of
                                       Inl e \<Rightarrow> (Inl e, w4)
                                     | Inr signed \<Rightarrow>
                                         (Inr \<lparr>signedTxn = signed, partialTxn = json\<rparr>, w4)))))))"

text \<open>Lines 151-159: the callback of \<open>paymentDetails.map\<close> in \<open>calculatePaymentTxnFee\<close>.\<close>

definition fee_payment_of :: "deps \<Rightarrow> SendDetails \<Rightarrow> error + Payment" where
  "fee_payment_of d s =
     (case (if truthy_str (SendDetails.payee s) \<and> isValid d (SendDetails.payee s)
            then fromB58 d (SendDetails.payee s)
            else EMPTY_B58_ADDRESS d) of
        Inl e \<Rightarrow> Inl e
      | Inr a \<Rightarrow> Inr \<lparr>Payment.payee = a,
                      amount = integerBalance (balanceAmount s),
                      memo = encodeMemoString d (SendDetails.memo s)\<rparr>)"

text \<open>Line 161: \<open>accountData?.account?.nonce\<close>.\<close>

definition cached_nonce :: "AccountQuery option \<Rightarrow> number option" where
  "cached_nonce q =
     (case q of
        None \<Rightarrow> None
      | Some r \<Rightarrow> (case account r of None \<Rightarrow> None | Some acc \<Rightarrow> Account.nonce acc))"

text \<open>Lines 142-165.\<close>

definition calculatePaymentTxnFee :: "deps \<Rightarrow> SendDetails list \<Rightarrow> world \<Rightarrow> (error + Balance) \<times> world" where
  "calculatePaymentTxnFee d paymentDetails w =
     (case currentAccount d of
        None \<Rightarrow> (Inl (Error ''Cannot calculate payment txn fee. Current account not found''), w)
      | Some acc \<Rightarrow>
          if \<not> truthy_str (CSAccount.address acc)
          then (Inl (Error ''Cannot calculate payment txn fee. Current account not found''), w)
          else
            (case fromB58 d (CSAccount.address acc) of
               Inl e \<Rightarrow> (Inl e, w)
             | Inr payer_address \<Rightarrow>
                 (case array_map (fee_payment_of d) paymentDetails of
                    Inl e \<Rightarrow> (Inl e, w)
                  | Inr ps \<Rightarrow>
                      (let options = \<lparr>PaymentV2Options.payer = payer_address,
                                      payments = ps,
                                      nonce = add_one (num_or (cached_nonce (accountData d)) (Num 0))\<rparr>;
                           w1 = called (NewPaymentV2 options) w
                       in case newPaymentV2 d (config w) options of
                            Inl e \<Rightarrow> (Inl e, w1)
                          | Inr paymentTxn \<Rightarrow>
                              (Inr \<lparr>integerBalance = num_or (PaymentV2.fee paymentTxn) (Num 0),
                                    type = dataCredit\<rparr>, w1)))))"

section \<open>The colour hook\<close>

text \<open>
  The second file's default export. \<open>NetTypes.NetType\<close> is a number and
  \<open>NetTypes.TESTNET\<close> a constant of the address package, taken as the parameter
  \<open>TESTNET\<close>; \<open>l1Network\<close> comes from \<open>useAppStorage\<close>. Every input of the
  memoised function is in the dependency list of \<open>useMemo\<close>, so the hook returns the
  function's value; \<open>None\<close> is \<open>undefined\<close>.
\<close>

record ColorProps =
  defaultColor :: "string option"
  netType :: "int option"
  muted :: "bool option"

definition useNetworkColor :: "int \<Rightarrow> string \<Rightarrow> ColorProps \<Rightarrow> string option" where
  "useNetworkColor TESTNET l1Network p =
     (if netType p = Some TESTNET
      then (if muted p = Some True then Some ''lividBrown'' else Some ''testnet'')
      else if l1Network = ''solana'' then Some ''solanaPurple''
      else (case defaultColor p of
              None \<Rightarrow> None
            | Some c \<Rightarrow> if truthy_str c then Some c else None))"

section \<open>Reading the log\<close>




text \<open>
  The argument \<open>makeBurnTxn\<close> gives to \<open>Transaction.config\<close> when the guard of line 86
  passes, and the calls that statement adds to the log.
\<close>

definition fee_config :: "BurnArgs \<Rightarrow> ChainVars option" where
  "fee_config a =
     (case BurnArgs.dcPayloadSize a of
        None \<Rightarrow> None
      | Some payloadSize \<Rightarrow>
          (case BurnArgs.txnFeeMultiplier a of
             None \<Rightarrow> None
           | Some multiplier \<Rightarrow>
               if payloadSize \<noteq> Num 0 \<and> payloadSize \<noteq> NaN \<and>
                  multiplier \<noteq> Num 0 \<and> multiplier \<noteq> NaN
               then Some \<lparr>ChainVars.dcPayloadSize = payloadSize, txnFeeMultiplier = multiplier\<rparr>
               else None))"

definition fee_config_calls :: "BurnArgs \<Rightarrow> call list" where
  "fee_config_calls a = (case fee_config a of None \<Rightarrow> [] | Some v \<Rightarrow> [TransactionConfig v])"

text \<open>Line 143: \<open>!currentAccount?.address\<close>, no current account or an empty address.\<close>

definition account_unset :: "deps \<Rightarrow> bool" where
  "account_unset d \<longleftrightarrow>
     (case currentAccount d of None \<Rightarrow> True | Some acc \<Rightarrow> CSAccount.address acc = [])"

section \<open>Assumptions on the collaborators\<close>

text \<open>
  The key store, the GraphQL client, the two constructors and the two \<open>sign\<close> methods
  return normally: none of them throws or rejects.
\<close>

definition sdk_returns :: "deps \<Rightarrow> bool" where
  "sdk_returns d \<longleftrightarrow>
     \<not> isl (getKeypair d) \<and> \<not> isl (fetchAccount d) \<and>
     (\<forall>c opts. \<not> isl (newTokenBurnV1 d c opts)) \<and>
     (\<forall>c opts. \<not> isl (newPaymentV2 d c opts)) \<and>
     (\<forall>t k. \<not> isl (signTokenBurnV1 d t k)) \<and>
     (\<forall>t k. \<not> isl (signPaymentV2 d t k))"

text \<open>\<open>Address.fromB58\<close> returns an address for the string.\<close>

definition decodes :: "deps \<Rightarrow> string \<Rightarrow> bool" where
  "decodes d s \<longleftrightarrow> \<not> isl (fromB58 d s)"

text \<open>
  The contract of \<open>Address.isValid\<close>: a string it accepts is one \<open>Address.fromB58\<close>
  decodes.
\<close>

definition valid_decodes :: "deps \<Rightarrow> bool" where
  "valid_decodes d \<longleftrightarrow> (\<forall>s. isValid d s \<longrightarrow> decodes d s)"

text \<open>
  The contract of \<open>PaymentV2.sign\<close>: the transaction it resolves to has the type,
  payments, payer, nonce and fee of the transaction it was called on.
\<close>

definition sign_keeps_fields :: "deps \<Rightarrow> bool" where
  "sign_keeps_fields d \<longleftrightarrow>
     (\<forall>t k s. signPaymentV2 d t k = Inr s \<longrightarrow>
        PaymentV2.type s = PaymentV2.type t \<and>
        PaymentV2.payments s = PaymentV2.payments t \<and>
        PaymentV2.payer s = PaymentV2.payer t \<and>
        PaymentV2.nonce s = PaymentV2.nonce t \<and>
        PaymentV2.fee s = PaymentV2.fee t)"

section \<open>A sample environment\<close>

text \<open>
  Stand-ins for the collaborators, used to run the operations on concrete inputs. The
  sample SDK knows three addresses; every other string fails to decode, as a string that
  is not a base58-check address does. Memos are encoded in base64. The constructors copy
  their options into the object and set a fee; signing sets the signature and returns the
  same transaction.
\<close>

definition empty_b58 :: string where
  "empty_b58 = ''13PuqyWXzPYeXcF1B9ZRx7RLkEygeL374ZABiQdwRSNzASdA1sn''"

definition alice_b58 :: string where
  "alice_b58 = ''148d8KTRcKA5JKPekBcKFd4KfvprvFRpjGtivhtmRmnZ8MFYnP3''"

definition bob_b58 :: string where
  "bob_b58 = ''13M8dUbxymE3xtiAXszRkGMmezMhBS8Li7wEsMojLdb4Sdxc4wc''"

definition sample_isValid :: "string \<Rightarrow> bool" where
  "sample_isValid s = (s = empty_b58 \<or> s = alice_b58 \<or> s = bob_b58)"

definition sample_fromB58 :: "string \<Rightarrow> error + address" where
  "sample_fromB58 s = (if sample_isValid s then Inr (Address s) else Inl (Error ''invalid address''))"

definition base64_digit :: "nat \<Rightarrow> char" where
  "base64_digit n =
     ''ABCDEFGHIJKLMNOPQRSTUVWXYZabcdefghijklmnopqrstuvwxyz0123456789+/'' ! n"

fun base64 :: "nat list \<Rightarrow> string" where
  "base64 [] = []"
| "base64 [a] = [base64_digit (a div 4), base64_digit ((a mod 4) * 16), CHR ''='', CHR ''='']"
| "base64 [a, b] =
     [base64_digit (a div 4), base64_digit ((a mod 4) * 16 + b div 16),
      base64_digit ((b mod 16) * 4), CHR ''='']"
| "base64 (a # b # c # rest) =
     [base64_digit (a div 4), base64_digit ((a mod 4) * 16 + b div 16),
      base64_digit ((b mod 16) * 4 + c div 64), base64_digit (c mod 64)] @ base64 rest"

definition sample_encodeMemoString :: "string \<Rightarrow> string option" where
  "sample_encodeMemoString s = (if truthy_str s then Some (base64 (map of_char s)) else None)"

definition sample_newTokenBurnV1 :: "ChainVars option \<Rightarrow> TokenBurnOptions \<Rightarrow> error + TokenBurnV1" where
  "sample_newTokenBurnV1 c opts =
     Inr \<lparr>TokenBurnV1.payer = Some (TokenBurnOptions.payer opts),
          payee = Some (TokenBurnOptions.payee opts),
          amount = Some (TokenBurnOptions.amount opts),
          nonce = Some (TokenBurnOptions.nonce opts),
          memo = Some (TokenBurnOptions.memo opts),
          fee = Some (Num 35000),
          signature = None\<rparr>"

definition sample_newPaymentV2 :: "ChainVars option \<Rightarrow> PaymentV2Options \<Rightarrow> error + PaymentV2" where
  "sample_newPaymentV2 c opts =
     Inr \<lparr>PaymentV2.type = ''payment_v2'',
          payments = PaymentV2Options.payments opts,
          payer = Some (PaymentV2Options.payer opts),
          nonce = Some (PaymentV2Options.nonce opts),
          fee = Some (Num 35000),
          signature = None\<rparr>"

definition sample_keypair :: Keypair where
  "sample_keypair = \<lparr>Keypair.address = Address alice_b58\<rparr>"

definition sample_account :: AccountQuery where
  "sample_account = \<lparr>account = Some \<lparr>Account.nonce = Some (Num 7), speculativeNonce = Some (Num 9)\<rparr>\<rparr>"

definition sample_deps :: deps where
  "sample_deps =
     \<lparr>getKeypair = Inr (Some sample_keypair),
      currentAccount = Some \<lparr>CSAccount.address = alice_b58\<rparr>,
      fetchAccount = Inr \<lparr>data = Some sample_account\<rparr>,
      accountData = Some sample_account,
      fromB58 = sample_fromB58,
      isValid = sample_isValid,
      encodeMemoString = sample_encodeMemoString,
      newTokenBurnV1 = sample_newTokenBurnV1,
      newPaymentV2 = sample_newPaymentV2,
      signTokenBurnV1 = (\<lambda>t k. Inr (t\<lparr>TokenBurnV1.signature := Some ''signature''\<rparr>)),
      signPaymentV2 = (\<lambda>t k. Inr (t\<lparr>PaymentV2.signature := Some ''signature''\<rparr>))\<rparr>"

definition sample_world :: world where
  "sample_world = \<lparr>config = None, calls = []\<rparr>"

definition sample_details :: "SendDetails list" where
  "sample_details =
     [\<lparr>SendDetails.payee = bob_b58,
       balanceAmount = \<lparr>integerBalance = Num 100000000, type = networkToken\<rparr>,
       memo = ''hi''\<rparr>]"

definition sample_burn :: BurnArgs where
  "sample_burn =
     \<lparr>BurnArgs.amount = Num 5, payeeB58 = bob_b58, nonce = Num 8, memo = ''aGk='',
      dcPayloadSize = None, txnFeeMultiplier = None\<rparr>"

text \<open>What the operations produce in the sample environment.\<close>

definition sample_payments :: "Payment list" where
  "sample_payments = [\<lparr>Payment.payee = Address bob_b58, amount = Num 100000000, memo = Some ''aGk=''\<rparr>]"

definition sample_options :: PaymentV2Options where
  "sample_options =
     \<lparr>PaymentV2Options.payer = Address alice_b58, payments = sample_payments, nonce = Num 10\<rparr>"

definition sample_txn :: PaymentV2 where
  "sample_txn =
     \<lparr>PaymentV2.type = ''payment_v2'', payments = sample_payments,
      payer = Some (Address alice_b58), nonce = Some (Num 10), fee = Some (Num 35000), signature = None\<rparr>"

definition sample_partial :: PartialPaymentTxn where
  "sample_partial =
     \<lparr>PartialPaymentTxn.type = ''payment_v2'',
      payments = [\<lparr>PartialPayment.payee = bob_b58, memo = Some ''aGk='', amount = Num 100000000\<rparr>],
      payer = Some alice_b58, nonce = Some (Num 10), fee = Some (Num 35000)\<rparr>"

definition sample_result :: PaymentResult where
  "sample_result =
     \<lparr>signedTxn = sample_txn\<lparr>PaymentV2.signature := Some ''signature''\<rparr>,
      partialTxn = sample_partial\<rparr>"

definition sample_burn_options :: TokenBurnOptions where
  "sample_burn_options =
     \<lparr>TokenBurnOptions.payer = Address alice_b58, payee = Address bob_b58, amount = Num 5,
      nonce = Num 8, memo = ''aGk=''\<rparr>"

definition sample_burn_txn :: TokenBurnV1 where
  "sample_burn_txn =
     \<lparr>TokenBurnV1.payer = Some (Address alice_b58), payee = Some (Address bob_b58),
      amount = Some (Num 5), nonce = Some (Num 8), memo = Some ''aGk='', fee = Some (Num 35000),
      signature = None\<rparr>"

definition sample_payment_world :: world where
  "sample_payment_world =
     \<lparr>config = None,
      calls = [GetKeypair, FetchAccount, NewPaymentV2 sample_options,
               SignPaymentV2 sample_txn sample_keypair]\<rparr>"

definition sample_burn_world :: world where
  "sample_burn_world =
     \<lparr>config = None,
      calls = [GetKeypair, NewTokenBurnV1 sample_burn_options,
               SignTokenBurnV1 sample_burn_txn sample_keypair]\<rparr>"

definition sample_fee_options :: PaymentV2Options where
  "sample_fee_options =
     \<lparr>PaymentV2Options.payer = Address alice_b58, payments = sample_payments, nonce = Num 8\<rparr>"

definition sample_fee_world :: world where
  "sample_fee_world = \<lparr>config = None, calls = [NewPaymentV2 sample_fee_options]\<rparr>"

text \<open>
  The sample environment with an empty account cache and a constructor that sets no fee.
\<close>

definition feeless_deps :: deps where
  "feeless_deps =
     sample_deps
       \<lparr>accountData := None,
        newPaymentV2 := (\<lambda>c opts.
          Inr \<lparr>PaymentV2.type = ''payment_v2'',
               payments = PaymentV2Options.payments opts,
               payer = Some (PaymentV2Options.payer opts),
               nonce = Some (PaymentV2Options.nonce opts),
               fee = None,
               signature = None\<rparr>)\<rparr>"

text \<open>A payment whose payee has not been entered yet, and what the fee estimate makes of it.\<close>

definition sample_draft :: "SendDetails list" where
  "sample_draft =
     [\<lparr>SendDetails.payee = [],
       balanceAmount = \<lparr>integerBalance = Num 100000000, type = networkToken\<rparr>,
       memo = ''hi''\<rparr>]"

definition sample_draft_options :: PaymentV2Options where
  "sample_draft_options =
     \<lparr>PaymentV2Options.payer = Address alice_b58,
      payments = [\<lparr>Payment.payee = Address empty_b58, amount = Num 100000000, memo = Some ''aGk=''\<rparr>],
      nonce = Num 8\<rparr>"

text \<open>Variants of the sample environment, one for each condition the operations test.\<close>

definition no_keypair_deps :: deps where
  "no_keypair_deps = sample_deps\<lparr>getKeypair := Inr None\<rparr>"

definition no_nonce_account :: AccountQuery where
  "no_nonce_account = \<lparr>account = Some \<lparr>Account.nonce = Some (Num 7), speculativeNonce = None\<rparr>\<rparr>"

definition no_nonce_deps :: deps where
  "no_nonce_deps = sample_deps\<lparr>fetchAccount := Inr \<lparr>data = Some no_nonce_account\<rparr>\<rparr>"

definition big_nonce_account :: AccountQuery where
  "big_nonce_account =
     \<lparr>account = Some \<lparr>Account.nonce = Some (Num 7),
                        speculativeNonce = Some (Num 9007199254740992)\<rparr>\<rparr>"

definition big_nonce_deps :: deps where
  "big_nonce_deps = sample_deps\<lparr>fetchAccount := Inr \<lparr>data = Some big_nonce_account\<rparr>\<rparr>"

definition big_nonce_options :: PaymentV2Options where
  "big_nonce_options =
     \<lparr>PaymentV2Options.payer = Address alice_b58, payments = sample_payments,
      nonce = Num 9007199254740992\<rparr>"

definition empty_address_deps :: deps where
  "empty_address_deps = sample_deps\<lparr>currentAccount := Some \<lparr>CSAccount.address = []\<rparr>\<rparr>"

definition bogus_address_deps :: deps where
  "bogus_address_deps = sample_deps\<lparr>currentAccount := Some \<lparr>CSAccount.address = ''bogus''\<rparr>\<rparr>"

definition null_account_deps :: deps where
  "null_account_deps = sample_deps\<lparr>accountData := Some \<lparr>account = None\<rparr>\<rparr>"

section \<open>Runs of the operations\<close>

subsection \<open>Helpers and makeBurnTxn\<close>


lemma array_map_Inr: "array_map f xs = Inr ys \<Longrightarrow> map f xs = map Inr ys"
  by (induction xs arbitrary: ys) (auto split: sum.splits)

lemma array_map_Inl: "array_map f xs = Inl e \<Longrightarrow> \<exists>x\<in>set xs. f x = Inl e"
  by (induction xs) (auto split: sum.splits)

lemma array_map_returns: "\<forall>x\<in>set xs. \<not> isl (f x) \<Longrightarrow> \<exists>ys. array_map f xs = Inr ys"
proof (induction xs)
  case Nil
  show ?case by simp
next
  case (Cons x xs)
  then obtain ys where ys: "array_map f xs = Inr ys" by auto
  from Cons.prems obtain y where "f x = Inr y" by (cases "f x") auto
  with ys show ?case by simp
qed

lemma truthy_iff: "truthy v \<longleftrightarrow> v \<noteq> Num 0 \<and> v \<noteq> NaN"
  by (cases v) simp_all

lemma configure_fees_eq:
  "configure_fees a w = (case fee_config a of None \<Rightarrow> w | Some v \<Rightarrow> Transaction_config v w)"
  by (simp add: configure_fees_def fee_config_def truthy_num_def truthy_iff split: option.splits)

lemma configure_fees_calls: "calls (configure_fees a w) = calls w @ fee_config_calls a"
  by (simp add: configure_fees_eq fee_config_calls_def Transaction_config_def called_def
      split: option.splits)

lemma configure_fees_config:
  "config (configure_fees a w) = (case fee_config a of None \<Rightarrow> config w | Some v \<Rightarrow> Some v)"
  by (simp add: configure_fees_eq Transaction_config_def called_def split: option.splits)

lemma makeBurnTxn_no_keypair:
  "getKeypair d = Inr None \<Longrightarrow>
   makeBurnTxn d a w = (Inl (Error ''missing keypair''), w\<lparr>calls := calls w @ [GetKeypair]\<rparr>)"
  by (simp add: makeBurnTxn_def called_def)

lemma makeBurnTxn_Inr:
  assumes "makeBurnTxn d a w = (Inr t, w')"
  shows "\<exists>kp pa txn.
           getKeypair d = Inr (Some kp) \<and> fromB58 d (payeeB58 a) = Inr pa \<and>
           newTokenBurnV1 d (config (configure_fees a w))
             \<lparr>TokenBurnOptions.payer = Keypair.address kp, payee = pa, amount = BurnArgs.amount a,
              nonce = BurnArgs.nonce a, memo = BurnArgs.memo a\<rparr> = Inr txn \<and>
           signTokenBurnV1 d txn kp = Inr t \<and>
           config w' = config (configure_fees a w) \<and>
           calls w' = calls w @ [GetKeypair] @ fee_config_calls a @
             [NewTokenBurnV1 \<lparr>TokenBurnOptions.payer = Keypair.address kp, payee = pa,
                amount = BurnArgs.amount a, nonce = BurnArgs.nonce a, memo = BurnArgs.memo a\<rparr>,
              SignTokenBurnV1 txn kp]"
  using assms
  by (auto simp: makeBurnTxn_def Let_def called_def configure_fees_calls configure_fees_config
      configure_fees_eq Transaction_config_def fee_config_calls_def
      split: sum.splits option.splits)

lemma not_isl_Inr: "\<not> isl x \<Longrightarrow> \<exists>y. x = Inr y"
  by (cases x) auto

lemma makeBurnTxn_returns:
  assumes kp: "getKeypair d = Inr (Some kp)" and pa: "decodes d (payeeB58 a)"
    and new: "\<forall>c opts. \<not> isl (newTokenBurnV1 d c opts)"
    and sign: "\<forall>t k. \<not> isl (signTokenBurnV1 d t k)"
  shows "\<not> isl (fst (makeBurnTxn d a w))"
proof -
  from pa obtain p where p: "fromB58 d (payeeB58 a) = Inr p"
    unfolding decodes_def by (blast dest: not_isl_Inr)
  let ?opts = "\<lparr>TokenBurnOptions.payer = Keypair.address kp, payee = p,
                amount = BurnArgs.amount a, nonce = BurnArgs.nonce a, memo = BurnArgs.memo a\<rparr>"
  from new obtain txn where txn:
    "newTokenBurnV1 d (config (configure_fees a (called GetKeypair w))) ?opts = Inr txn"
    by (blast dest: not_isl_Inr)
  from sign obtain t where t: "signTokenBurnV1 d txn kp = Inr t"
    by (blast dest: not_isl_Inr)
  show ?thesis by (simp add: makeBurnTxn_def Let_def kp p txn t)
qed

lemma makeBurnTxn_throws_iff:
  assumes "sdk_returns d" "decodes d (payeeB58 a)"
  shows "isl (fst (makeBurnTxn d a w)) \<longleftrightarrow> getKeypair d = Inr None"
proof (cases "getKeypair d")
  case (Inl e)
  with assms show ?thesis by (simp add: sdk_returns_def)
next
  case (Inr k)
  show ?thesis
  proof (cases k)
    case None
    with Inr show ?thesis by (simp add: makeBurnTxn_no_keypair)
  next
    case (Some kp)
    with Inr assms makeBurnTxn_returns [of d kp a w] show ?thesis
      by (simp add: sdk_returns_def)
  qed
qed

lemma makeBurnTxn_own_error:
  assumes "sdk_returns d" "decodes d (payeeB58 a)" "isl (fst (makeBurnTxn d a w))"
  shows "fst (makeBurnTxn d a w) = Inl (Error ''missing keypair'')"
  using assms makeBurnTxn_throws_iff [of d a w] by (simp add: makeBurnTxn_no_keypair)

subsection \<open>makePaymentTxn\<close>

lemma makePaymentTxn_no_keypair:
  "getKeypair d = Inr None \<Longrightarrow>
   makePaymentTxn d ps w = (Inl (Error ''missing keypair''), w\<lparr>calls := calls w @ [GetKeypair]\<rparr>)"
  by (simp add: makePaymentTxn_def called_def)

lemma makePaymentTxn_no_nonce:
  "getKeypair d = Inr (Some kp) \<Longrightarrow> fetchAccount d = Inr r \<Longrightarrow> fresh_speculativeNonce r = None \<Longrightarrow>
   makePaymentTxn d ps w =
     (Inl (Error ''Could not find speculative nonce for the current account''),
      w\<lparr>calls := calls w @ [GetKeypair, FetchAccount]\<rparr>)"
  by (simp add: makePaymentTxn_def called_def)

lemma makePaymentTxn_Inr:
  assumes "makePaymentTxn d ps w = (Inr res, w')"
  shows "\<exists>kp r n pays txn.
           getKeypair d = Inr (Some kp) \<and> fetchAccount d = Inr r \<and>
           fresh_speculativeNonce r = Some n \<and>
           array_map (payment_of d) ps = Inr pays \<and>
           newPaymentV2 d (config w)
             \<lparr>PaymentV2Options.payer = Keypair.address kp, payments = pays, nonce = add_one n\<rparr> = Inr txn \<and>
           signPaymentV2 d txn kp = Inr (signedTxn res) \<and>
           partialTxn res = txnJson txn \<and>
           w' = w\<lparr>calls := calls w @
                   [GetKeypair, FetchAccount,
                    NewPaymentV2 \<lparr>PaymentV2Options.payer = Keypair.address kp, payments = pays, nonce = add_one n\<rparr>,
                    SignPaymentV2 txn kp]\<rparr>"
  using assms
  by (auto simp: makePaymentTxn_def Let_def called_def split: sum.splits option.splits)

lemma makePaymentTxn_run:
  assumes "getKeypair d = Inr (Some kp)" "fetchAccount d = Inr r"
    "fresh_speculativeNonce r = Some n" "array_map (payment_of d) ps = Inr pays"
    "newPaymentV2 d (config w)
       \<lparr>PaymentV2Options.payer = Keypair.address kp, payments = pays, nonce = add_one n\<rparr> = Inr txn"
    "signPaymentV2 d txn kp = Inr s"
  shows "makePaymentTxn d ps w =
           (Inr \<lparr>signedTxn = s, partialTxn = txnJson txn\<rparr>,
            w\<lparr>calls := calls w @
                   [GetKeypair, FetchAccount,
                    NewPaymentV2 \<lparr>PaymentV2Options.payer = Keypair.address kp, payments = pays, nonce = add_one n\<rparr>,
                    SignPaymentV2 txn kp]\<rparr>)"
  using assms by (simp add: makePaymentTxn_def Let_def called_def)

lemma payment_of_returns: "decodes d (SendDetails.payee s) \<Longrightarrow> \<not> isl (payment_of d s)"
  by (auto simp: payment_of_def decodes_def split: sum.splits)

lemma payment_of_Inr:
  "payment_of d s = Inr p \<Longrightarrow>
   fromB58 d (SendDetails.payee s) = Inr (Payment.payee p) \<and>
   Payment.amount p = integerBalance (balanceAmount s) \<and>
   Payment.memo p = encodeMemoString d (SendDetails.memo s)"
  by (auto simp: payment_of_def split: sum.splits)

lemma makePaymentTxn_returns:
  assumes kp: "getKeypair d = Inr (Some kp)" and r: "fetchAccount d = Inr r"
    and n: "fresh_speculativeNonce r = Some n"
    and ps: "\<forall>s\<in>set ps. decodes d (SendDetails.payee s)"
    and new: "\<forall>c opts. \<not> isl (newPaymentV2 d c opts)"
    and sign: "\<forall>t k. \<not> isl (signPaymentV2 d t k)"
  shows "\<exists>pays txn s.
           array_map (payment_of d) ps = Inr pays \<and>
           newPaymentV2 d (config w)
             \<lparr>PaymentV2Options.payer = Keypair.address kp, payments = pays, nonce = add_one n\<rparr> = Inr txn \<and>
           signPaymentV2 d txn kp = Inr s \<and>
           makePaymentTxn d ps w =
             (Inr \<lparr>signedTxn = s, partialTxn = txnJson txn\<rparr>,
              w\<lparr>calls := calls w @
                   [GetKeypair, FetchAccount,
                    NewPaymentV2 \<lparr>PaymentV2Options.payer = Keypair.address kp, payments = pays, nonce = add_one n\<rparr>,
                    SignPaymentV2 txn kp]\<rparr>)"
proof -
  from ps have "\<forall>s\<in>set ps. \<not> isl (payment_of d s)" by (simp add: payment_of_returns)
  then obtain pays where pays: "array_map (payment_of d) ps = Inr pays"
    by (blast dest: array_map_returns)
  let ?opts = "\<lparr>PaymentV2Options.payer = Keypair.address kp, payments = pays, nonce = add_one n\<rparr>"
  from new obtain txn where txn: "newPaymentV2 d (config w) ?opts = Inr txn"
    by (blast dest: not_isl_Inr)
  from sign obtain s where s: "signPaymentV2 d txn kp = Inr s"
    by (blast dest: not_isl_Inr)
  from makePaymentTxn_run [OF kp r n pays txn s] pays txn s show ?thesis by blast
qed

lemma makePaymentTxn_throws_iff:
  assumes sdk: "sdk_returns d" and ps: "\<forall>s\<in>set ps. decodes d (SendDetails.payee s)"
  shows "isl (fst (makePaymentTxn d ps w)) \<longleftrightarrow>
           getKeypair d = Inr None \<or> (\<exists>r. fetchAccount d = Inr r \<and> fresh_speculativeNonce r = None)"
proof -
  from sdk obtain k r where k: "getKeypair d = Inr k" and r: "fetchAccount d = Inr r"
    unfolding sdk_returns_def by (blast dest: not_isl_Inr)
  show ?thesis
  proof (cases k)
    case None
    with k show ?thesis by (simp add: makePaymentTxn_no_keypair)
  next
    case (Some kp)
    show ?thesis
    proof (cases "fresh_speculativeNonce r")
      case None
      with k Some r show ?thesis by (simp add: makePaymentTxn_no_nonce)
    next
      case (Some n)
      from sdk have "\<forall>c opts. \<not> isl (newPaymentV2 d c opts)" "\<forall>t k. \<not> isl (signPaymentV2 d t k)"
        by (simp_all add: sdk_returns_def)
      with makePaymentTxn_returns [of d kp r n ps w] k \<open>k = Some kp\<close> r Some ps
      obtain res w' where "makePaymentTxn d ps w = (Inr res, w')" by blast
      with k \<open>k = Some kp\<close> r Some show ?thesis by simp
    qed
  qed
qed

subsection \<open>calculatePaymentTxnFee\<close>

lemma calculatePaymentTxnFee_unset:
  "account_unset d \<Longrightarrow>
   calculatePaymentTxnFee d ps w =
     (Inl (Error ''Cannot calculate payment txn fee. Current account not found''), w)"
  by (simp add: calculatePaymentTxnFee_def account_unset_def truthy_str_def split: option.splits)

lemma calculatePaymentTxnFee_Inr:
  assumes "calculatePaymentTxnFee d ps w = (Inr b, w')"
  shows "\<exists>acc pa pays txn.
           currentAccount d = Some acc \<and> CSAccount.address acc \<noteq> [] \<and>
           fromB58 d (CSAccount.address acc) = Inr pa \<and>
           array_map (fee_payment_of d) ps = Inr pays \<and>
           newPaymentV2 d (config w)
             \<lparr>PaymentV2Options.payer = pa, payments = pays,
              nonce = add_one (num_or (cached_nonce (accountData d)) (Num 0))\<rparr> = Inr txn \<and>
           b = \<lparr>integerBalance = num_or (PaymentV2.fee txn) (Num 0), type = dataCredit\<rparr> \<and>
           w' = w\<lparr>calls := calls w @
                   [NewPaymentV2 \<lparr>PaymentV2Options.payer = pa, payments = pays,
                      nonce = add_one (num_or (cached_nonce (accountData d)) (Num 0))\<rparr>]\<rparr>"
  using assms
  by (auto simp: calculatePaymentTxnFee_def Let_def called_def truthy_str_def
      split: sum.splits option.splits if_splits)

lemma calculatePaymentTxnFee_run:
  assumes "currentAccount d = Some acc" "CSAccount.address acc \<noteq> []"
    "fromB58 d (CSAccount.address acc) = Inr pa"
    "array_map (fee_payment_of d) ps = Inr pays"
    "newPaymentV2 d (config w)
       \<lparr>PaymentV2Options.payer = pa, payments = pays,
        nonce = add_one (num_or (cached_nonce (accountData d)) (Num 0))\<rparr> = Inr txn"
  shows "calculatePaymentTxnFee d ps w =
           (Inr \<lparr>integerBalance = num_or (PaymentV2.fee txn) (Num 0), type = dataCredit\<rparr>,
            w\<lparr>calls := calls w @
                   [NewPaymentV2 \<lparr>PaymentV2Options.payer = pa, payments = pays,
                      nonce = add_one (num_or (cached_nonce (accountData d)) (Num 0))\<rparr>]\<rparr>)"
  using assms by (simp add: calculatePaymentTxnFee_def Let_def called_def truthy_str_def)

lemma fee_payment_of_returns:
  "valid_decodes d \<Longrightarrow> \<not> isl (EMPTY_B58_ADDRESS d) \<Longrightarrow> \<not> isl (fee_payment_of d s)"
  by (auto simp: fee_payment_of_def valid_decodes_def decodes_def split: sum.splits)

lemma fee_payment_of_Inr:
  "fee_payment_of d s = Inr p \<Longrightarrow>
   Inr (Payment.payee p) =
     (if SendDetails.payee s \<noteq> [] \<and> isValid d (SendDetails.payee s)
      then fromB58 d (SendDetails.payee s) else EMPTY_B58_ADDRESS d) \<and>
   Payment.amount p = integerBalance (balanceAmount s) \<and>
   Payment.memo p = encodeMemoString d (SendDetails.memo s)"
  by (auto simp: fee_payment_of_def truthy_str_def split: sum.splits if_splits)

lemma calculatePaymentTxnFee_returns:
  assumes acc: "currentAccount d = Some acc" "CSAccount.address acc \<noteq> []"
    and pa: "fromB58 d (CSAccount.address acc) = Inr pa"
    and valid: "valid_decodes d" and empty: "\<not> isl (EMPTY_B58_ADDRESS d)"
    and new: "\<forall>c opts. \<not> isl (newPaymentV2 d c opts)"
  shows "\<exists>pays txn.
           array_map (fee_payment_of d) ps = Inr pays \<and>
           newPaymentV2 d (config w)
             \<lparr>PaymentV2Options.payer = pa, payments = pays,
              nonce = add_one (num_or (cached_nonce (accountData d)) (Num 0))\<rparr> = Inr txn \<and>
           calculatePaymentTxnFee d ps w =
             (Inr \<lparr>integerBalance = num_or (PaymentV2.fee txn) (Num 0), type = dataCredit\<rparr>,
              w\<lparr>calls := calls w @
                   [NewPaymentV2 \<lparr>PaymentV2Options.payer = pa, payments = pays,
                      nonce = add_one (num_or (cached_nonce (accountData d)) (Num 0))\<rparr>]\<rparr>)"
proof -
  from valid empty have "\<forall>s\<in>set ps. \<not> isl (fee_payment_of d s)"
    by (simp add: fee_payment_of_returns)
  then obtain pays where pays: "array_map (fee_payment_of d) ps = Inr pays"
    by (blast dest: array_map_returns)
  let ?opts = "\<lparr>PaymentV2Options.payer = pa, payments = pays,
                nonce = add_one (num_or (cached_nonce (accountData d)) (Num 0))\<rparr>"
  from new obtain txn where txn: "newPaymentV2 d (config w) ?opts = Inr txn"
    by (blast dest: not_isl_Inr)
  from calculatePaymentTxnFee_run [OF acc pa pays txn] pays txn show ?thesis by blast
qed

lemma calculatePaymentTxnFee_throws_iff:
  assumes new: "\<forall>c opts. \<not> isl (newPaymentV2 d c opts)"
    and valid: "valid_decodes d" and empty: "\<not> isl (EMPTY_B58_ADDRESS d)"
    and cur: "\<forall>acc. currentAccount d = Some acc \<and> CSAccount.address acc \<noteq> [] \<longrightarrow>
                decodes d (CSAccount.address acc)"
  shows "isl (fst (calculatePaymentTxnFee d ps w)) \<longleftrightarrow> account_unset d"
proof (cases "account_unset d")
  case True
  then show ?thesis by (simp add: calculatePaymentTxnFee_unset)
next
  case False
  then obtain acc where acc: "currentAccount d = Some acc" "CSAccount.address acc \<noteq> []"
    by (auto simp: account_unset_def split: option.splits)
  with cur obtain pa where pa: "fromB58 d (CSAccount.address acc) = Inr pa"
    unfolding decodes_def by (blast dest: not_isl_Inr)
  from calculatePaymentTxnFee_returns [OF acc pa valid empty new, of ps w] False
  show ?thesis by auto
qed

lemma calculatePaymentTxnFee_ignores_keys:
  "calculatePaymentTxnFee (d\<lparr>getKeypair := g, fetchAccount := f\<rparr>) ps w = calculatePaymentTxnFee d ps w"
proof -
  have "fee_payment_of (d\<lparr>getKeypair := g, fetchAccount := f\<rparr>) = fee_payment_of d"
    by (rule ext) (simp add: fee_payment_of_def EMPTY_B58_ADDRESS_def split: sum.splits)
  then show ?thesis
    by (simp add: calculatePaymentTxnFee_def cong: option.case_cong sum.case_cong if_cong)
qed

section \<open>The sample environment at work\<close>


lemma sample_decodes:
  "sample_fromB58 alice_b58 = Inr (Address alice_b58)"
  "sample_fromB58 bob_b58 = Inr (Address bob_b58)"
  "sample_fromB58 empty_b58 = Inr (Address empty_b58)"
  by (simp_all add: sample_fromB58_def sample_isValid_def)

lemma sample_memo: "sample_encodeMemoString ''hi'' = Some ''aGk=''"
  by (simp add: sample_encodeMemoString_def truthy_str_def base64_digit_def)

lemma sample_deps_fields:
  "getKeypair sample_deps = Inr (Some sample_keypair)"
  "currentAccount sample_deps = Some \<lparr>CSAccount.address = alice_b58\<rparr>"
  "fetchAccount sample_deps = Inr \<lparr>data = Some sample_account\<rparr>"
  "accountData sample_deps = Some sample_account"
  "fromB58 sample_deps = sample_fromB58"
  "isValid sample_deps = sample_isValid"
  "encodeMemoString sample_deps = sample_encodeMemoString"
  "newTokenBurnV1 sample_deps = sample_newTokenBurnV1"
  "newPaymentV2 sample_deps = sample_newPaymentV2"
  "signTokenBurnV1 sample_deps = (\<lambda>t k. Inr (t\<lparr>TokenBurnV1.signature := Some ''signature''\<rparr>))"
  "signPaymentV2 sample_deps = (\<lambda>t k. Inr (t\<lparr>PaymentV2.signature := Some ''signature''\<rparr>))"
  by (simp_all add: sample_deps_def)

lemma sample_nonce:
  "fresh_speculativeNonce \<lparr>data = Some sample_account\<rparr> = Some (Num 9)"
  "cached_nonce (Some sample_account) = Some (Num 7)"
  by (simp_all add: fresh_speculativeNonce_def cached_nonce_def sample_account_def)

lemma alice_nonempty: "alice_b58 \<noteq> []" "bob_b58 \<noteq> []"
  by (simp_all add: alice_b58_def bob_b58_def)

lemma sample_payment_run:
  "makePaymentTxn sample_deps sample_details sample_world =
     (Inr sample_result, sample_payment_world)"
  by (simp add: sample_payment_world_def makePaymentTxn_def Let_def called_def sample_deps_fields sample_nonce
      sample_details_def payment_of_def sample_decodes sample_memo sample_world_def
      sample_newPaymentV2_def txnJson_def sample_result_def sample_options_def sample_txn_def
      sample_payments_def sample_partial_def sample_keypair_def)

lemma sample_burn_run:
  "makeBurnTxn sample_deps sample_burn sample_world =
     (Inr (sample_burn_txn\<lparr>TokenBurnV1.signature := Some ''signature''\<rparr>), sample_burn_world)"
  by (simp add: sample_burn_world_def makeBurnTxn_def Let_def called_def sample_deps_fields sample_burn_def
      sample_decodes sample_world_def configure_fees_def sample_newTokenBurnV1_def
      sample_burn_options_def sample_burn_txn_def sample_keypair_def)

lemma sample_fee_run:
  "calculatePaymentTxnFee sample_deps sample_details sample_world =
     (Inr \<lparr>integerBalance = Num 35000, type = dataCredit\<rparr>, sample_fee_world)"
  by (simp add: sample_fee_world_def calculatePaymentTxnFee_def Let_def called_def sample_deps_fields sample_nonce
      sample_details_def fee_payment_of_def sample_decodes sample_memo sample_world_def
      sample_newPaymentV2_def sample_fee_options_def truthy_str_def alice_nonempty
      sample_payments_def sample_isValid_def num_or_def)

lemma sample_worlds:
  "calls sample_world = []" "config sample_world = None"
  "calls sample_payment_world =
     [GetKeypair, FetchAccount, NewPaymentV2 sample_options, SignPaymentV2 sample_txn sample_keypair]"
  "calls sample_burn_world =
     [GetKeypair, NewTokenBurnV1 sample_burn_options, SignTokenBurnV1 sample_burn_txn sample_keypair]"
  "calls sample_fee_world = [NewPaymentV2 sample_fee_options]"
  by (simp_all add: sample_world_def sample_payment_world_def sample_burn_world_def
      sample_fee_world_def)


lemma sample_sdk_returns: "sdk_returns sample_deps"
  by (simp add: sdk_returns_def sample_deps_fields sample_newPaymentV2_def sample_newTokenBurnV1_def)

lemma sample_valid_decodes: "valid_decodes sample_deps"
  by (simp add: valid_decodes_def decodes_def sample_deps_fields sample_fromB58_def)

lemma sample_known_decode:
  "decodes sample_deps alice_b58" "decodes sample_deps bob_b58"
  "\<not> isl (EMPTY_B58_ADDRESS sample_deps)"
  using sample_decodes(3)
  by (simp_all add: decodes_def sample_deps_fields sample_decodes EMPTY_B58_ADDRESS_def
      empty_b58_def)

lemma sample_details_decode: "\<forall>s\<in>set sample_details. decodes sample_deps (SendDetails.payee s)"
  using sample_known_decode(2) by (simp add: sample_details_def)

lemma num_or_None: "num_or None d = d"
  by (simp add: num_or_def)

lemma num_or_Some: "num_or (Some v) d = (if v = Num 0 \<or> v = NaN then d else v)"
  by (cases v) (simp_all add: num_or_def)

lemma add_one_safe:
  "- 9007199254740992 \<le> n \<Longrightarrow> n < 9007199254740992 \<Longrightarrow> add_one (Num n) = Num (n + 1)"
  by simp

lemma feeless_deps_fields:
  "currentAccount feeless_deps = Some \<lparr>CSAccount.address = alice_b58\<rparr>"
  "accountData feeless_deps = None"
  "fromB58 feeless_deps = sample_fromB58"
  "isValid feeless_deps = sample_isValid"
  by (simp_all add: feeless_deps_def sample_deps_fields)

subsection \<open>What reaches the constructors\<close>


lemma payments_of_details:
  "array_map (payment_of d) ps = Inr pays \<Longrightarrow>
   map (\<lambda>p. Inr (Payment.payee p)) pays = map (\<lambda>s. fromB58 d (SendDetails.payee s)) ps \<and>
   map Payment.amount pays = map (\<lambda>s. integerBalance (balanceAmount s)) ps \<and>
   map Payment.memo pays = map (\<lambda>s. encodeMemoString d (SendDetails.memo s)) ps"
proof (induction ps arbitrary: pays)
  case Nil
  then show ?case by simp
next
  case (Cons s ps)
  then obtain p rest where p: "payment_of d s = Inr p"
    and rest: "array_map (payment_of d) ps = Inr rest" and pays: "pays = p # rest"
    by (auto split: sum.splits)
  from Cons.IH [OF rest] payment_of_Inr [OF p] pays show ?case by simp
qed

lemma fee_payments_of_details:
  "array_map (fee_payment_of d) ps = Inr pays \<Longrightarrow>
   map (\<lambda>p. Inr (Payment.payee p)) pays =
     map (\<lambda>s. if SendDetails.payee s \<noteq> [] \<and> isValid d (SendDetails.payee s)
               then fromB58 d (SendDetails.payee s) else EMPTY_B58_ADDRESS d) ps \<and>
   map Payment.amount pays = map (\<lambda>s. integerBalance (balanceAmount s)) ps \<and>
   map Payment.memo pays = map (\<lambda>s. encodeMemoString d (SendDetails.memo s)) ps"
proof (induction ps arbitrary: pays)
  case Nil
  then show ?case by simp
next
  case (Cons s ps)
  then obtain p rest where p: "fee_payment_of d s = Inr p"
    and rest: "array_map (fee_payment_of d) ps = Inr rest" and pays: "pays = p # rest"
    by (auto split: sum.splits)
  from Cons.IH [OF rest] fee_payment_of_Inr [OF p] pays show ?case by simp
qed

lemma makePaymentTxn_options:
  assumes "makePaymentTxn d ps w = (Inr res, w')"
  shows "\<exists>kp opts txn.
           calls w' = calls w @ [GetKeypair, FetchAccount, NewPaymentV2 opts, SignPaymentV2 txn kp] \<and>
           getKeypair d = Inr (Some kp) \<and>
           PaymentV2Options.payer opts = Keypair.address kp \<and>
           map (\<lambda>p. Inr (Payment.payee p)) (PaymentV2Options.payments opts) =
             map (\<lambda>s. fromB58 d (SendDetails.payee s)) ps \<and>
           map Payment.amount (PaymentV2Options.payments opts) =
             map (\<lambda>s. integerBalance (balanceAmount s)) ps \<and>
           map Payment.memo (PaymentV2Options.payments opts) =
             map (\<lambda>s. encodeMemoString d (SendDetails.memo s)) ps"
proof -
  from makePaymentTxn_Inr [OF assms] obtain kp r n pays txn where
    kp: "getKeypair d = Inr (Some kp)" and pays: "array_map (payment_of d) ps = Inr pays"
    and w': "w' = w\<lparr>calls := calls w @
                   [GetKeypair, FetchAccount,
                    NewPaymentV2 \<lparr>PaymentV2Options.payer = Keypair.address kp, payments = pays, nonce = add_one n\<rparr>,
                    SignPaymentV2 txn kp]\<rparr>"
    by blast
  from payments_of_details [OF pays] kp w' show ?thesis
    by (intro exI [of _ kp] exI [of _ txn]
        exI [of _ "\<lparr>PaymentV2Options.payer = Keypair.address kp, payments = pays, nonce = add_one n\<rparr>"])
      simp
qed

lemma calculatePaymentTxnFee_options:
  assumes "calculatePaymentTxnFee d ps w = (Inr b, w')"
  shows "\<exists>opts.
           calls w' = calls w @ [NewPaymentV2 opts] \<and>
           map (\<lambda>p. Inr (Payment.payee p)) (PaymentV2Options.payments opts) =
             map (\<lambda>s. if SendDetails.payee s \<noteq> [] \<and> isValid d (SendDetails.payee s)
                       then fromB58 d (SendDetails.payee s) else EMPTY_B58_ADDRESS d) ps \<and>
           map Payment.amount (PaymentV2Options.payments opts) =
             map (\<lambda>s. integerBalance (balanceAmount s)) ps \<and>
           map Payment.memo (PaymentV2Options.payments opts) =
             map (\<lambda>s. encodeMemoString d (SendDetails.memo s)) ps"
proof -
  from calculatePaymentTxnFee_Inr [OF assms] obtain pa pays where
    pays: "array_map (fee_payment_of d) ps = Inr pays"
    and w': "w' = w\<lparr>calls := calls w @
                   [NewPaymentV2 \<lparr>PaymentV2Options.payer = pa, payments = pays,
                      nonce = add_one (num_or (cached_nonce (accountData d)) (Num 0))\<rparr>]\<rparr>"
    by blast
  from fee_payments_of_details [OF pays] w' show ?thesis
    by (intro exI [of _ "\<lparr>PaymentV2Options.payer = pa, payments = pays,
                           nonce = add_one (num_or (cached_nonce (accountData d)) (Num 0))\<rparr>"])
      simp
qed

lemma sample_draft_fee_run:
  "calculatePaymentTxnFee sample_deps sample_draft sample_world =
     (Inr \<lparr>integerBalance = Num 35000, type = dataCredit\<rparr>,
      \<lparr>config = None, calls = [NewPaymentV2 sample_draft_options]\<rparr>)"
  using sample_decodes(3)
  by (simp add: calculatePaymentTxnFee_def Let_def called_def sample_deps_fields sample_nonce
      sample_draft_def fee_payment_of_def sample_decodes sample_memo sample_world_def
      sample_newPaymentV2_def sample_draft_options_def truthy_str_def alice_nonempty
      num_or_def EMPTY_B58_ADDRESS_def empty_b58_def)

lemma sample_draft_payment_run:
  "makePaymentTxn sample_deps sample_draft sample_world =
     (Inl (Error ''invalid address''), \<lparr>config = None, calls = [GetKeypair, FetchAccount]\<rparr>)"
  by (simp add: makePaymentTxn_def Let_def called_def sample_deps_fields sample_nonce
      sample_draft_def payment_of_def sample_world_def sample_fromB58_def sample_isValid_def
      empty_b58_def alice_b58_def bob_b58_def)

lemma sample_sign_keeps_fields: "sign_keeps_fields sample_deps"
  by (auto simp: sign_keeps_fields_def sample_deps_fields)

subsection \<open>Reading the account queries\<close>

lemma fresh_speculativeNonce_None_iff:
  "fresh_speculativeNonce r = None \<longleftrightarrow>
     data r = None \<or>
     (\<exists>q. data r = Some q \<and>
        (account q = None \<or> (\<exists>acc. account q = Some acc \<and> speculativeNonce acc = None)))"
  by (auto simp: fresh_speculativeNonce_def split: option.splits)

lemma fresh_speculativeNonce_Some_iff:
  "fresh_speculativeNonce r = Some v \<longleftrightarrow>
     (\<exists>q acc. data r = Some q \<and> account q = Some acc \<and> speculativeNonce acc = Some v)"
  by (auto simp: fresh_speculativeNonce_def split: option.splits)

lemma fee_nonce_default:
  "c = None \<or>
   (\<exists>q. c = Some q \<and>
      (account q = None \<or>
       (\<exists>a. account q = Some a \<and>
          (Account.nonce a = None \<or> Account.nonce a = Some (Num 0) \<or>
           Account.nonce a = Some NaN)))) \<Longrightarrow>
   add_one (num_or (cached_nonce c) (Num 0)) = Num 1"
  by (auto simp: cached_nonce_def num_or_def)

lemma fee_nonce_cached:
  "c = Some q \<Longrightarrow> account q = Some a \<Longrightarrow> Account.nonce a = Some v \<Longrightarrow>
   v \<noteq> Num 0 \<Longrightarrow> v \<noteq> NaN \<Longrightarrow>
   add_one (num_or (cached_nonce c) (Num 0)) = add_one v"
  by (simp add: cached_nonce_def num_or_def truthy_iff)

subsection \<open>The variants of the sample environment\<close>

lemma sample_rejects: "isl (sample_fromB58 [])" "isl (sample_fromB58 ''bogus'')"
  by (simp_all add: sample_fromB58_def sample_isValid_def empty_b58_def alice_b58_def bob_b58_def)

lemma sample_variant_decodes:
  assumes "fromB58 d = sample_fromB58" "isValid d = sample_isValid"
  shows "valid_decodes d" "\<not> isl (EMPTY_B58_ADDRESS d)" "decodes d alice_b58"
    "decodes d bob_b58" "\<not> decodes d []" "\<not> decodes d ''bogus''"
proof -
  show "valid_decodes d"
    using assms by (simp add: valid_decodes_def decodes_def sample_fromB58_def)
  show "\<not> isl (EMPTY_B58_ADDRESS d)"
    using assms sample_decodes(3) by (simp add: EMPTY_B58_ADDRESS_def empty_b58_def)
  show "decodes d alice_b58" "decodes d bob_b58"
    using assms by (simp_all add: decodes_def sample_decodes)
  show "\<not> decodes d []" "\<not> decodes d ''bogus''"
    using assms by (simp_all add: decodes_def sample_rejects)
qed

lemma variant_fields:
  "fromB58 no_keypair_deps = sample_fromB58" "isValid no_keypair_deps = sample_isValid"
  "fromB58 no_nonce_deps = sample_fromB58" "isValid no_nonce_deps = sample_isValid"
  "fromB58 big_nonce_deps = sample_fromB58" "isValid big_nonce_deps = sample_isValid"
  "fromB58 empty_address_deps = sample_fromB58" "isValid empty_address_deps = sample_isValid"
  "fromB58 bogus_address_deps = sample_fromB58" "isValid bogus_address_deps = sample_isValid"
  "fromB58 null_account_deps = sample_fromB58" "isValid null_account_deps = sample_isValid"
  "fromB58 feeless_deps = sample_fromB58" "isValid feeless_deps = sample_isValid"
  by (simp_all add: no_keypair_deps_def no_nonce_deps_def big_nonce_deps_def
      empty_address_deps_def bogus_address_deps_def null_account_deps_def feeless_deps_def
      sample_deps_fields)

lemma variant_sdk_returns:
  "sdk_returns no_keypair_deps" "sdk_returns no_nonce_deps" "sdk_returns big_nonce_deps"
  "sdk_returns empty_address_deps" "sdk_returns bogus_address_deps"
  "sdk_returns null_account_deps" "sdk_returns feeless_deps"
  using sample_sdk_returns
  by (simp_all add: sdk_returns_def no_keypair_deps_def no_nonce_deps_def big_nonce_deps_def
      empty_address_deps_def bogus_address_deps_def null_account_deps_def feeless_deps_def)

lemma variant_accounts:
  "getKeypair no_keypair_deps = Inr None"
  "currentAccount no_keypair_deps = Some \<lparr>CSAccount.address = alice_b58\<rparr>"
  "fetchAccount no_keypair_deps = Inr \<lparr>data = Some sample_account\<rparr>"
  "getKeypair no_nonce_deps = Inr (Some sample_keypair)"
  "fetchAccount no_nonce_deps = Inr \<lparr>data = Some no_nonce_account\<rparr>"
  "currentAccount no_nonce_deps = Some \<lparr>CSAccount.address = alice_b58\<rparr>"
  "getKeypair big_nonce_deps = Inr (Some sample_keypair)"
  "fetchAccount big_nonce_deps = Inr \<lparr>data = Some big_nonce_account\<rparr>"
  "getKeypair empty_address_deps = Inr (Some sample_keypair)"
  "fetchAccount empty_address_deps = Inr \<lparr>data = Some sample_account\<rparr>"
  "currentAccount empty_address_deps = Some \<lparr>CSAccount.address = []\<rparr>"
  "getKeypair bogus_address_deps = Inr (Some sample_keypair)"
  "fetchAccount bogus_address_deps = Inr \<lparr>data = Some sample_account\<rparr>"
  "currentAccount bogus_address_deps = Some \<lparr>CSAccount.address = ''bogus''\<rparr>"
  "currentAccount null_account_deps = Some \<lparr>CSAccount.address = alice_b58\<rparr>"
  "accountData null_account_deps = Some \<lparr>account = None\<rparr>"
  by (simp_all add: no_keypair_deps_def no_nonce_deps_def big_nonce_deps_def
      empty_address_deps_def bogus_address_deps_def null_account_deps_def sample_deps_fields)

lemma sample_account_fields:
  "account sample_account = Some \<lparr>Account.nonce = Some (Num 7), speculativeNonce = Some (Num 9)\<rparr>"
  "account no_nonce_account = Some \<lparr>Account.nonce = Some (Num 7), speculativeNonce = None\<rparr>"
  "account big_nonce_account =
     Some \<lparr>Account.nonce = Some (Num 7), speculativeNonce = Some (Num 9007199254740992)\<rparr>"
  by (simp_all add: sample_account_def no_nonce_account_def big_nonce_account_def)

lemma big_nonce_run:
  "makePaymentTxn big_nonce_deps sample_details sample_world =
     (Inr \<lparr>signedTxn = sample_txn\<lparr>PaymentV2.nonce := Some (Num 9007199254740992),
                                    PaymentV2.signature := Some ''signature''\<rparr>,
           partialTxn = sample_partial\<lparr>PartialPaymentTxn.nonce := Some (Num 9007199254740992)\<rparr>\<rparr>,
      \<lparr>config = None,
       calls = [GetKeypair, FetchAccount, NewPaymentV2 big_nonce_options,
                SignPaymentV2 (sample_txn\<lparr>PaymentV2.nonce := Some (Num 9007199254740992)\<rparr>)
                  sample_keypair]\<rparr>)"
  by (simp add: makePaymentTxn_def Let_def called_def big_nonce_deps_def sample_deps_fields
      fresh_speculativeNonce_def big_nonce_account_def
      sample_details_def payment_of_def sample_decodes sample_memo sample_world_def
      sample_newPaymentV2_def txnJson_def big_nonce_options_def sample_txn_def
      sample_payments_def sample_partial_def sample_keypair_def)

lemma bogus_address_run:
  "calculatePaymentTxnFee bogus_address_deps sample_details sample_world =
     (Inl (Error ''invalid address''), sample_world)"
  using sample_rejects(2)
  by (auto simp: calculatePaymentTxnFee_def bogus_address_deps_def sample_deps_fields
      truthy_str_def sample_fromB58_def split: sum.splits if_splits)

section \<open>Claims\<close>

text \<open>
  C1, as stated, fails: with a keypair available and a numeric speculative nonce,
  \<open>calculatePaymentTxnFee\<close> still throws when there is no current account. That is a
  third condition, with an error message of its own.
\<close>

theorem fee_throws_without_current_account:
  "getKeypair (sample_deps\<lparr>currentAccount := None\<rparr>) = Inr (Some sample_keypair) \<and>
   fetchAccount (sample_deps\<lparr>currentAccount := None\<rparr>) = Inr \<lparr>data = Some sample_account\<rparr> \<and>
   account sample_account =
     Some \<lparr>Account.nonce = Some (Num 7), speculativeNonce = Some (Num 9)\<rparr> \<and>
   calculatePaymentTxnFee (sample_deps\<lparr>currentAccount := None\<rparr>) sample_details sample_world =
     (Inl (Error ''Cannot calculate payment txn fee. Current account not found''), sample_world)"
  by (simp add: sample_deps_fields sample_account_fields calculatePaymentTxnFee_def)

text \<open>
  C1, amended. The file's own \<open>throw\<close> statements cover three conditions: no keypair
  (\<open>makeBurnTxn\<close>, \<open>makePaymentTxn\<close>), a fetched account without a numeric speculative
  nonce (\<open>makePaymentTxn\<close>), and no current account address (\<open>calculatePaymentTxnFee\<close>).
  When no call into the key store, the GraphQL client or the SDK raises, each operation
  throws exactly under its own conditions and with its own message:
  \<open>makeBurnTxn\<close> exactly when the keypair is missing; \<open>makePaymentTxn\<close> exactly when the
  keypair is missing or the query result has no data, no account or no speculative nonce;
  \<open>calculatePaymentTxnFee\<close> exactly when there is no current account or its address is
  empty, whatever the keypair and the fetched nonce are. The current address is decoded
  only when it is not empty, so only then is it assumed to decode.
\<close>

theorem helper_throw_conditions:
  assumes sdk: "sdk_returns d" and valid: "valid_decodes d"
    and empty: "\<not> isl (EMPTY_B58_ADDRESS d)"
    and cur: "\<forall>acc. currentAccount d = Some acc \<and> CSAccount.address acc \<noteq> [] \<longrightarrow>
                decodes d (CSAccount.address acc)"
    and burn: "decodes d (payeeB58 a)"
    and pay: "\<forall>s\<in>set ps. decodes d (SendDetails.payee s)"
  shows "(isl (fst (makeBurnTxn d a w)) \<longleftrightarrow> getKeypair d = Inr None) \<and>
         (isl (fst (makeBurnTxn d a w)) \<longrightarrow>
            fst (makeBurnTxn d a w) = Inl (Error ''missing keypair'')) \<and>
         (isl (fst (makePaymentTxn d ps w)) \<longleftrightarrow>
            getKeypair d = Inr None \<or>
            (\<exists>r. fetchAccount d = Inr r \<and>
               (data r = None \<or>
                (\<exists>q. data r = Some q \<and>
                   (account q = None \<or>
                    (\<exists>acc. account q = Some acc \<and> speculativeNonce acc = None)))))) \<and>
         (getKeypair d = Inr None \<longrightarrow>
            fst (makePaymentTxn d ps w) = Inl (Error ''missing keypair'')) \<and>
         (isl (fst (makePaymentTxn d ps w)) \<and> getKeypair d \<noteq> Inr None \<longrightarrow>
            fst (makePaymentTxn d ps w) =
              Inl (Error ''Could not find speculative nonce for the current account'')) \<and>
         (isl (fst (calculatePaymentTxnFee d qs w)) \<longleftrightarrow>
            currentAccount d = None \<or>
            (\<exists>acc. currentAccount d = Some acc \<and> CSAccount.address acc = [])) \<and>
         (isl (fst (calculatePaymentTxnFee d qs w)) \<longrightarrow>
            fst (calculatePaymentTxnFee d qs w) =
              Inl (Error ''Cannot calculate payment txn fee. Current account not found'')) \<and>
         calculatePaymentTxnFee (d\<lparr>getKeypair := g, fetchAccount := f\<rparr>) qs w =
           calculatePaymentTxnFee d qs w"
proof -
  have b1: "isl (fst (makeBurnTxn d a w)) \<longleftrightarrow> getKeypair d = Inr None"
    using sdk burn by (rule makeBurnTxn_throws_iff)
  have b2: "isl (fst (makeBurnTxn d a w)) \<longrightarrow>
            fst (makeBurnTxn d a w) = Inl (Error ''missing keypair'')"
    using b1 by (simp add: makeBurnTxn_no_keypair)
  have "isl (fst (makePaymentTxn d ps w)) \<longleftrightarrow>
            getKeypair d = Inr None \<or>
            (\<exists>r. fetchAccount d = Inr r \<and> fresh_speculativeNonce r = None)"
    using sdk pay by (rule makePaymentTxn_throws_iff)
  then have p1: "isl (fst (makePaymentTxn d ps w)) \<longleftrightarrow>
            getKeypair d = Inr None \<or>
            (\<exists>r. fetchAccount d = Inr r \<and>
               (data r = None \<or>
                (\<exists>q. data r = Some q \<and>
                   (account q = None \<or>
                    (\<exists>acc. account q = Some acc \<and> speculativeNonce acc = None)))))"
    by (simp only: fresh_speculativeNonce_None_iff)
  have p2: "getKeypair d = Inr None \<longrightarrow>
            fst (makePaymentTxn d ps w) = Inl (Error ''missing keypair'')"
    by (simp add: makePaymentTxn_no_keypair)
  have p3: "isl (fst (makePaymentTxn d ps w)) \<and> getKeypair d \<noteq> Inr None \<longrightarrow>
            fst (makePaymentTxn d ps w) =
              Inl (Error ''Could not find speculative nonce for the current account'')"
  proof
    assume h: "isl (fst (makePaymentTxn d ps w)) \<and> getKeypair d \<noteq> Inr None"
    with sdk obtain kp where kp: "getKeypair d = Inr (Some kp)"
      by (cases "getKeypair d") (auto simp: sdk_returns_def)
    from h p1 obtain r where r: "fetchAccount d = Inr r" "fresh_speculativeNonce r = None"
      by (auto simp: fresh_speculativeNonce_None_iff)
    from makePaymentTxn_no_nonce [OF kp r]
    show "fst (makePaymentTxn d ps w) =
              Inl (Error ''Could not find speculative nonce for the current account'')"
      by simp
  qed
  from sdk have new: "\<forall>c opts. \<not> isl (newPaymentV2 d c opts)"
    by (simp add: sdk_returns_def)
  have unset: "account_unset d \<longleftrightarrow>
      currentAccount d = None \<or> (\<exists>acc. currentAccount d = Some acc \<and> CSAccount.address acc = [])"
    by (auto simp: account_unset_def split: option.splits)
  have f0: "isl (fst (calculatePaymentTxnFee d qs w)) \<longleftrightarrow> account_unset d"
    using new valid empty cur by (rule calculatePaymentTxnFee_throws_iff)
  have f1: "isl (fst (calculatePaymentTxnFee d qs w)) \<longleftrightarrow>
            currentAccount d = None \<or>
            (\<exists>acc. currentAccount d = Some acc \<and> CSAccount.address acc = [])"
    using f0 unset by simp
  have f2: "isl (fst (calculatePaymentTxnFee d qs w)) \<longrightarrow>
            fst (calculatePaymentTxnFee d qs w) =
              Inl (Error ''Cannot calculate payment txn fee. Current account not found'')"
    using f0 by (simp add: calculatePaymentTxnFee_unset)
  from b1 b2 p1 p2 p3 f1 f2 calculatePaymentTxnFee_ignores_keys
  show ?thesis by blast
qed

theorem helper_throw_conditions_witness:
  "\<not> isl (fst (makeBurnTxn sample_deps sample_burn sample_world)) \<and>
   \<not> isl (fst (makePaymentTxn sample_deps sample_details sample_world)) \<and>
   \<not> isl (fst (calculatePaymentTxnFee sample_deps sample_details sample_world)) \<and>
   calculatePaymentTxnFee
     (sample_deps\<lparr>getKeypair := Inr None, fetchAccount := Inr \<lparr>data = None\<rparr>\<rparr>)
     sample_details sample_world =
   calculatePaymentTxnFee sample_deps sample_details sample_world \<and>
   getKeypair no_keypair_deps = Inr None \<and>
   fst (makeBurnTxn no_keypair_deps sample_burn sample_world) = Inl (Error ''missing keypair'') \<and>
   fst (makePaymentTxn no_keypair_deps sample_details sample_world) =
     Inl (Error ''missing keypair'') \<and>
   \<not> isl (fst (calculatePaymentTxnFee no_keypair_deps sample_details sample_world)) \<and>
   account no_nonce_account =
     Some \<lparr>Account.nonce = Some (Num 7), speculativeNonce = None\<rparr> \<and>
   \<not> isl (fst (makeBurnTxn no_nonce_deps sample_burn sample_world)) \<and>
   fst (makePaymentTxn no_nonce_deps sample_details sample_world) =
     Inl (Error ''Could not find speculative nonce for the current account'') \<and>
   \<not> isl (fst (calculatePaymentTxnFee no_nonce_deps sample_details sample_world)) \<and>
   currentAccount empty_address_deps = Some \<lparr>CSAccount.address = []\<rparr> \<and>
   \<not> isl (fst (makeBurnTxn empty_address_deps sample_burn sample_world)) \<and>
   \<not> isl (fst (makePaymentTxn empty_address_deps sample_details sample_world)) \<and>
   fst (calculatePaymentTxnFee empty_address_deps sample_details sample_world) =
     Inl (Error ''Cannot calculate payment txn fee. Current account not found'')"
proof -
  have burn: "payeeB58 sample_burn = bob_b58"
    by (simp add: sample_burn_def)
  have pay: "set sample_details =
      {\<lparr>SendDetails.payee = bob_b58,
        balanceAmount = \<lparr>integerBalance = Num 100000000, type = networkToken\<rparr>,
        memo = ''hi''\<rparr>}"
    by (simp add: sample_details_def)
  have ok: "\<not> isl (fst (makeBurnTxn sample_deps sample_burn sample_world)) \<and>
      \<not> isl (fst (makePaymentTxn sample_deps sample_details sample_world)) \<and>
      \<not> isl (fst (calculatePaymentTxnFee sample_deps sample_details sample_world)) \<and>
      calculatePaymentTxnFee
        (sample_deps\<lparr>getKeypair := Inr None, fetchAccount := Inr \<lparr>data = None\<rparr>\<rparr>)
        sample_details sample_world =
      calculatePaymentTxnFee sample_deps sample_details sample_world"
    using helper_throw_conditions
      [where d = sample_deps and a = sample_burn and ps = sample_details and w = sample_world
         and qs = sample_details and g = "Inr None" and f = "Inr \<lparr>data = None\<rparr>"]
      sample_sdk_returns sample_valid_decodes sample_known_decode
    by (simp add: burn pay sample_deps_fields sample_account_fields alice_nonempty)
  have nokey: "fst (makeBurnTxn no_keypair_deps sample_burn sample_world) =
        Inl (Error ''missing keypair'') \<and>
      fst (makePaymentTxn no_keypair_deps sample_details sample_world) =
        Inl (Error ''missing keypair'') \<and>
      \<not> isl (fst (calculatePaymentTxnFee no_keypair_deps sample_details sample_world))"
    using helper_throw_conditions
      [where d = no_keypair_deps and a = sample_burn and ps = sample_details
         and w = sample_world and qs = sample_details]
      variant_sdk_returns(1)
      sample_variant_decodes [OF variant_fields(1) variant_fields(2)]
    by (simp add: burn pay variant_accounts alice_nonempty)
  have nononce: "\<not> isl (fst (makeBurnTxn no_nonce_deps sample_burn sample_world)) \<and>
      fst (makePaymentTxn no_nonce_deps sample_details sample_world) =
        Inl (Error ''Could not find speculative nonce for the current account'') \<and>
      \<not> isl (fst (calculatePaymentTxnFee no_nonce_deps sample_details sample_world))"
    using helper_throw_conditions
      [where d = no_nonce_deps and a = sample_burn and ps = sample_details
         and w = sample_world and qs = sample_details]
      variant_sdk_returns(2)
      sample_variant_decodes [OF variant_fields(3) variant_fields(4)]
    by (simp add: burn pay variant_accounts sample_account_fields alice_nonempty)
  have noaddr: "\<not> isl (fst (makeBurnTxn empty_address_deps sample_burn sample_world)) \<and>
      \<not> isl (fst (makePaymentTxn empty_address_deps sample_details sample_world)) \<and>
      fst (calculatePaymentTxnFee empty_address_deps sample_details sample_world) =
        Inl (Error ''Cannot calculate payment txn fee. Current account not found'')"
    using helper_throw_conditions
      [where d = empty_address_deps and a = sample_burn and ps = sample_details
         and w = sample_world and qs = sample_details]
      variant_sdk_returns(4)
      sample_variant_decodes [OF variant_fields(7) variant_fields(8)]
    by (simp add: burn pay variant_accounts sample_account_fields)
  from ok nokey nononce noaddr show ?thesis
    by (simp add: variant_accounts sample_account_fields)
qed

text \<open>
  C2, as stated, fails for the two payment operations. For a payment with an empty payee
  and the memo \<open>hi\<close>, \<open>calculatePaymentTxnFee\<close> gives the constructor the fixed dummy
  address and the encoded memo: neither the payee nor the memo is the caller's string.
  \<open>makePaymentTxn\<close> likewise passes the encoded memo, not the memo it was given.
\<close>

theorem payee_and_memo_not_verbatim:
  "calls (snd (calculatePaymentTxnFee sample_deps sample_draft sample_world)) =
     [NewPaymentV2 sample_draft_options] \<and>
   map (\<lambda>p. b58 (Payment.payee p)) (PaymentV2Options.payments sample_draft_options) \<noteq>
     map SendDetails.payee sample_draft \<and>
   map Payment.memo (PaymentV2Options.payments sample_draft_options) \<noteq>
     map (\<lambda>s. Some (SendDetails.memo s)) sample_draft \<and>
   calls (snd (makePaymentTxn sample_deps sample_details sample_world)) =
     [GetKeypair, FetchAccount, NewPaymentV2 sample_options,
      SignPaymentV2 sample_txn sample_keypair] \<and>
   map Payment.memo (PaymentV2Options.payments sample_options) \<noteq>
     map (\<lambda>s. Some (SendDetails.memo s)) sample_details"
proof -
  have fee: "calls (snd (calculatePaymentTxnFee sample_deps sample_draft sample_world)) =
     [NewPaymentV2 sample_draft_options]"
    by (simp add: sample_draft_fee_run)
  have payee: "map (\<lambda>p. b58 (Payment.payee p)) (PaymentV2Options.payments sample_draft_options) \<noteq>
     map SendDetails.payee sample_draft"
    by (simp add: sample_draft_options_def sample_draft_def empty_b58_def)
  have memo: "map Payment.memo (PaymentV2Options.payments sample_draft_options) \<noteq>
     map (\<lambda>s. Some (SendDetails.memo s)) sample_draft"
    by (simp add: sample_draft_options_def sample_draft_def)
  have pay: "calls (snd (makePaymentTxn sample_deps sample_details sample_world)) =
     [GetKeypair, FetchAccount, NewPaymentV2 sample_options,
      SignPaymentV2 sample_txn sample_keypair]"
    by (simp add: sample_payment_run sample_worlds)
  have memo': "map Payment.memo (PaymentV2Options.payments sample_options) \<noteq>
     map (\<lambda>s. Some (SendDetails.memo s)) sample_details"
    by (simp add: sample_options_def sample_payments_def sample_details_def)
  from fee payee memo pay memo' show ?thesis by simp
qed

text \<open>
  C2, amended. On a successful call the constructor receives: in \<open>makeBurnTxn\<close>, the
  keypair's address as payer, \<open>Address.fromB58\<close> of the payee string, and the amount,
  nonce and memo unchanged; in \<open>makePaymentTxn\<close>, for each payment detail in order,
  \<open>Address.fromB58\<close> of the payee string, the integer balance of the amount, and
  \<open>encodeMemoString\<close> of the memo; in \<open>calculatePaymentTxnFee\<close> the same, except that
  an empty payee or one \<open>Address.isValid\<close> rejects is replaced by
  \<open>EMPTY_B58_ADDRESS\<close>.
\<close>

theorem arguments_forwarded:
  "(makeBurnTxn d a w = (Inr t, w1) \<longrightarrow>
      (\<exists>kp pa txn.
         getKeypair d = Inr (Some kp) \<and> fromB58 d (payeeB58 a) = Inr pa \<and>
         calls w1 = calls w @ [GetKeypair] @ fee_config_calls a @
           [NewTokenBurnV1 \<lparr>TokenBurnOptions.payer = Keypair.address kp, payee = pa,
              amount = BurnArgs.amount a, nonce = BurnArgs.nonce a, memo = BurnArgs.memo a\<rparr>,
            SignTokenBurnV1 txn kp])) \<and>
   (makePaymentTxn d ps w = (Inr res, w2) \<longrightarrow>
      (\<exists>kp opts txn.
         calls w2 = calls w @ [GetKeypair, FetchAccount, NewPaymentV2 opts, SignPaymentV2 txn kp] \<and>
         map (\<lambda>p. Inr (Payment.payee p)) (PaymentV2Options.payments opts) =
           map (\<lambda>s. fromB58 d (SendDetails.payee s)) ps \<and>
         map Payment.amount (PaymentV2Options.payments opts) =
           map (\<lambda>s. integerBalance (balanceAmount s)) ps \<and>
         map Payment.memo (PaymentV2Options.payments opts) =
           map (\<lambda>s. encodeMemoString d (SendDetails.memo s)) ps)) \<and>
   (calculatePaymentTxnFee d qs w = (Inr b, w3) \<longrightarrow>
      (\<exists>opts.
         calls w3 = calls w @ [NewPaymentV2 opts] \<and>
         map (\<lambda>p. Inr (Payment.payee p)) (PaymentV2Options.payments opts) =
           map (\<lambda>s. if SendDetails.payee s \<noteq> [] \<and> isValid d (SendDetails.payee s)
                     then fromB58 d (SendDetails.payee s) else EMPTY_B58_ADDRESS d) qs \<and>
         map Payment.amount (PaymentV2Options.payments opts) =
           map (\<lambda>s. integerBalance (balanceAmount s)) qs \<and>
         map Payment.memo (PaymentV2Options.payments opts) =
           map (\<lambda>s. encodeMemoString d (SendDetails.memo s)) qs))"
proof (intro conjI impI)
  assume "makeBurnTxn d a w = (Inr t, w1)"
  from makeBurnTxn_Inr [OF this]
  show "\<exists>kp pa txn.
         getKeypair d = Inr (Some kp) \<and> fromB58 d (payeeB58 a) = Inr pa \<and>
         calls w1 = calls w @ [GetKeypair] @ fee_config_calls a @
           [NewTokenBurnV1 \<lparr>TokenBurnOptions.payer = Keypair.address kp, payee = pa,
              amount = BurnArgs.amount a, nonce = BurnArgs.nonce a, memo = BurnArgs.memo a\<rparr>,
            SignTokenBurnV1 txn kp]"
    by blast
next
  assume "makePaymentTxn d ps w = (Inr res, w2)"
  from makePaymentTxn_options [OF this]
  show "\<exists>kp opts txn.
         calls w2 = calls w @ [GetKeypair, FetchAccount, NewPaymentV2 opts, SignPaymentV2 txn kp] \<and>
         map (\<lambda>p. Inr (Payment.payee p)) (PaymentV2Options.payments opts) =
           map (\<lambda>s. fromB58 d (SendDetails.payee s)) ps \<and>
         map Payment.amount (PaymentV2Options.payments opts) =
           map (\<lambda>s. integerBalance (balanceAmount s)) ps \<and>
         map Payment.memo (PaymentV2Options.payments opts) =
           map (\<lambda>s. encodeMemoString d (SendDetails.memo s)) ps"
    by blast
next
  assume "calculatePaymentTxnFee d qs w = (Inr b, w3)"
  from calculatePaymentTxnFee_options [OF this]
  show "\<exists>opts.
         calls w3 = calls w @ [NewPaymentV2 opts] \<and>
         map (\<lambda>p. Inr (Payment.payee p)) (PaymentV2Options.payments opts) =
           map (\<lambda>s. if SendDetails.payee s \<noteq> [] \<and> isValid d (SendDetails.payee s)
                     then fromB58 d (SendDetails.payee s) else EMPTY_B58_ADDRESS d) qs \<and>
         map Payment.amount (PaymentV2Options.payments opts) =
           map (\<lambda>s. integerBalance (balanceAmount s)) qs \<and>
         map Payment.memo (PaymentV2Options.payments opts) =
           map (\<lambda>s. encodeMemoString d (SendDetails.memo s)) qs"
    by blast
qed

theorem arguments_forwarded_witness:
  "makeBurnTxn sample_deps sample_burn sample_world =
     (Inr (sample_burn_txn\<lparr>TokenBurnV1.signature := Some ''signature''\<rparr>), sample_burn_world) \<and>
   (\<exists>kp pa txn.
      getKeypair sample_deps = Inr (Some kp) \<and> fromB58 sample_deps (payeeB58 sample_burn) = Inr pa \<and>
      calls sample_burn_world = calls sample_world @ [GetKeypair] @ fee_config_calls sample_burn @
        [NewTokenBurnV1 \<lparr>TokenBurnOptions.payer = Keypair.address kp, payee = pa,
           amount = BurnArgs.amount sample_burn, nonce = BurnArgs.nonce sample_burn,
           memo = BurnArgs.memo sample_burn\<rparr>,
         SignTokenBurnV1 txn kp]) \<and>
   makePaymentTxn sample_deps sample_details sample_world = (Inr sample_result, sample_payment_world) \<and>
   (\<exists>kp opts txn.
      calls sample_payment_world =
        calls sample_world @ [GetKeypair, FetchAccount, NewPaymentV2 opts, SignPaymentV2 txn kp] \<and>
      map (\<lambda>p. Inr (Payment.payee p)) (PaymentV2Options.payments opts) =
        map (\<lambda>s. fromB58 sample_deps (SendDetails.payee s)) sample_details \<and>
      map Payment.amount (PaymentV2Options.payments opts) =
        map (\<lambda>s. integerBalance (balanceAmount s)) sample_details \<and>
      map Payment.memo (PaymentV2Options.payments opts) =
        map (\<lambda>s. encodeMemoString sample_deps (SendDetails.memo s)) sample_details) \<and>
   calculatePaymentTxnFee sample_deps sample_draft sample_world =
     (Inr \<lparr>integerBalance = Num 35000, type = dataCredit\<rparr>,
      \<lparr>config = None, calls = [NewPaymentV2 sample_draft_options]\<rparr>) \<and>
   (\<exists>opts.
      calls \<lparr>config = None, calls = [NewPaymentV2 sample_draft_options]\<rparr> =
        calls sample_world @ [NewPaymentV2 opts] \<and>
      map (\<lambda>p. Inr (Payment.payee p)) (PaymentV2Options.payments opts) =
        map (\<lambda>s. if SendDetails.payee s \<noteq> [] \<and> isValid sample_deps (SendDetails.payee s)
                  then fromB58 sample_deps (SendDetails.payee s)
                  else EMPTY_B58_ADDRESS sample_deps) sample_draft \<and>
      map Payment.amount (PaymentV2Options.payments opts) =
        map (\<lambda>s. integerBalance (balanceAmount s)) sample_draft \<and>
      map Payment.memo (PaymentV2Options.payments opts) =
        map (\<lambda>s. encodeMemoString sample_deps (SendDetails.memo s)) sample_draft)"
  using arguments_forwarded
    [of sample_deps sample_burn sample_world
        "sample_burn_txn\<lparr>TokenBurnV1.signature := Some ''signature''\<rparr>" sample_burn_world
        sample_details sample_result sample_payment_world
        sample_draft "\<lparr>integerBalance = Num 35000, type = dataCredit\<rparr>"
        "\<lparr>config = None, calls = [NewPaymentV2 sample_draft_options]\<rparr>"]
    sample_burn_run sample_payment_run sample_draft_fee_run
  by blast




text \<open>
  C4. On a successful \<open>makePaymentTxn\<close> the partial record is the JSON of the transaction
  as it was handed to \<open>sign\<close>, built before \<open>sign\<close> was called. Given the SDK's contract
  that \<open>sign\<close> resolves to a transaction with the same type, payments, payer, nonce and
  fee, the record mirrors the signed transaction returned with it: same type, the payments
  with payee as b58 string, memo and amount, the payer's b58 string, the nonce and the fee.
\<close>

theorem partial_mirrors_signed:
  assumes run: "makePaymentTxn d ps w = (Inr res, w')" and keeps: "sign_keeps_fields d"
  shows "PartialPaymentTxn.type (partialTxn res) = PaymentV2.type (signedTxn res) \<and>
         PartialPaymentTxn.payments (partialTxn res) =
           map (\<lambda>p. \<lparr>PartialPayment.payee = b58 (Payment.payee p), memo = Payment.memo p,
                       amount = Payment.amount p\<rparr>) (PaymentV2.payments (signedTxn res)) \<and>
         PartialPaymentTxn.payer (partialTxn res) = map_option b58 (PaymentV2.payer (signedTxn res)) \<and>
         PartialPaymentTxn.nonce (partialTxn res) = PaymentV2.nonce (signedTxn res) \<and>
         PartialPaymentTxn.fee (partialTxn res) = PaymentV2.fee (signedTxn res) \<and>
         (\<exists>txn kp. last (calls w') = SignPaymentV2 txn kp \<and> partialTxn res = txnJson txn \<and>
                    signPaymentV2 d txn kp = Inr (signedTxn res))"
proof -
  from makePaymentTxn_Inr [OF run] obtain kp txn where
    sign: "signPaymentV2 d txn kp = Inr (signedTxn res)"
    and json: "partialTxn res = txnJson txn"
    and last: "last (calls w') = SignPaymentV2 txn kp"
    by auto
  from keeps sign have same:
    "PaymentV2.type (signedTxn res) = PaymentV2.type txn"
    "PaymentV2.payments (signedTxn res) = PaymentV2.payments txn"
    "PaymentV2.payer (signedTxn res) = PaymentV2.payer txn"
    "PaymentV2.nonce (signedTxn res) = PaymentV2.nonce txn"
    "PaymentV2.fee (signedTxn res) = PaymentV2.fee txn"
    unfolding sign_keeps_fields_def by blast+
  have fields:
    "PartialPaymentTxn.type (partialTxn res) = PaymentV2.type (signedTxn res)"
    "PartialPaymentTxn.payments (partialTxn res) =
           map (\<lambda>p. \<lparr>PartialPayment.payee = b58 (Payment.payee p), memo = Payment.memo p,
                       amount = Payment.amount p\<rparr>) (PaymentV2.payments (signedTxn res))"
    "PartialPaymentTxn.payer (partialTxn res) = map_option b58 (PaymentV2.payer (signedTxn res))"
    "PartialPaymentTxn.nonce (partialTxn res) = PaymentV2.nonce (signedTxn res)"
    "PartialPaymentTxn.fee (partialTxn res) = PaymentV2.fee (signedTxn res)"
    by (simp_all add: json same txnJson_def)
  from last json sign have "\<exists>txn kp. last (calls w') = SignPaymentV2 txn kp \<and>
      partialTxn res = txnJson txn \<and> signPaymentV2 d txn kp = Inr (signedTxn res)"
    by blast
  with fields show ?thesis by simp
qed

theorem partial_mirrors_signed_witness:
  "makePaymentTxn sample_deps sample_details sample_world = (Inr sample_result, sample_payment_world) \<and>
   sign_keeps_fields sample_deps \<and>
   PartialPaymentTxn.type (partialTxn sample_result) = PaymentV2.type (signedTxn sample_result) \<and>
   PartialPaymentTxn.payments (partialTxn sample_result) =
     map (\<lambda>p. \<lparr>PartialPayment.payee = b58 (Payment.payee p), memo = Payment.memo p,
                 amount = Payment.amount p\<rparr>) (PaymentV2.payments (signedTxn sample_result)) \<and>
   PartialPaymentTxn.payer (partialTxn sample_result) =
     map_option b58 (PaymentV2.payer (signedTxn sample_result)) \<and>
   PartialPaymentTxn.nonce (partialTxn sample_result) = PaymentV2.nonce (signedTxn sample_result) \<and>
   PartialPaymentTxn.fee (partialTxn sample_result) = PaymentV2.fee (signedTxn sample_result) \<and>
   partialTxn sample_result = sample_partial \<and>
   PaymentV2.signature (signedTxn sample_result) = Some ''signature''"
  using partial_mirrors_signed [OF sample_payment_run sample_sign_keeps_fields]
    sample_payment_run sample_sign_keeps_fields
  by (simp add: sample_result_def)

text \<open>
  C5, as stated, fails twice. With a keypair available and the numeric speculative nonce 9,
  \<open>makePaymentTxn\<close> still throws when a payee is the empty string, because
  \<open>Address.fromB58\<close> raises on it: a numeric nonce does not exclude a throw. And with
  the speculative nonce \<open>2^53\<close> the constructor receives \<open>2^53\<close>, not \<open>2^53 + 1\<close>:
  the sum is a double.
\<close>

theorem payment_throws_with_numeric_nonce:
  "getKeypair sample_deps = Inr (Some sample_keypair) \<and>
   fetchAccount sample_deps = Inr \<lparr>data = Some sample_account\<rparr> \<and>
   account sample_account =
     Some \<lparr>Account.nonce = Some (Num 7), speculativeNonce = Some (Num 9)\<rparr> \<and>
   makePaymentTxn sample_deps sample_draft sample_world =
     (Inl (Error ''invalid address''), \<lparr>config = None, calls = [GetKeypair, FetchAccount]\<rparr>) \<and>
   getKeypair big_nonce_deps = Inr (Some sample_keypair) \<and>
   fetchAccount big_nonce_deps = Inr \<lparr>data = Some big_nonce_account\<rparr> \<and>
   account big_nonce_account =
     Some \<lparr>Account.nonce = Some (Num 7), speculativeNonce = Some (Num 9007199254740992)\<rparr> \<and>
   calls (snd (makePaymentTxn big_nonce_deps sample_details sample_world)) =
     [GetKeypair, FetchAccount, NewPaymentV2 big_nonce_options,
      SignPaymentV2 (sample_txn\<lparr>PaymentV2.nonce := Some (Num 9007199254740992)\<rparr>) sample_keypair] \<and>
   PaymentV2Options.nonce big_nonce_options = Num 9007199254740992 \<and>
   PaymentV2Options.nonce big_nonce_options \<noteq> Num (9007199254740992 + 1)"
  by (simp add: sample_deps_fields variant_accounts sample_account_fields
      sample_draft_payment_run big_nonce_run big_nonce_options_def)

text \<open>
  C5, amended. Given a keypair and a resolved account query: when the result has no data,
  no account or no speculative nonce, \<open>makePaymentTxn\<close> throws
  \<open>Could not find speculative nonce for the current account\<close>, after the fetch and
  before anything is constructed. When the speculative nonce is a number and the SDK calls
  that follow return normally (every payee decodes, the constructor and \<open>sign\<close> return),
  the operation does not throw and the options given to \<open>new PaymentV2\<close> carry the
  speculative nonce plus one as JavaScript adds it: exactly \<open>n + 1\<close> for every integer
  \<open>n\<close> from \<open>-2^53\<close> to \<open>2^53 - 1\<close>. The nonce is read from the
  \<open>speculativeNonce\<close> field, not from \<open>nonce\<close>.
\<close>

theorem payment_nonce_from_account:
  assumes kp: "getKeypair d = Inr (Some kp)" and r: "fetchAccount d = Inr r"
  shows "((data r = None \<or>
           (\<exists>q. data r = Some q \<and>
              (account q = None \<or>
               (\<exists>acc. account q = Some acc \<and> speculativeNonce acc = None)))) \<longrightarrow>
            makePaymentTxn d ps w =
              (Inl (Error ''Could not find speculative nonce for the current account''),
               w\<lparr>calls := calls w @ [GetKeypair, FetchAccount]\<rparr>)) \<and>
         (\<forall>q acc v.
            data r = Some q \<and> account q = Some acc \<and> speculativeNonce acc = Some v \<and>
            (\<forall>s\<in>set ps. decodes d (SendDetails.payee s)) \<and>
            (\<forall>c opts. \<not> isl (newPaymentV2 d c opts)) \<and>
            (\<forall>t k. \<not> isl (signPaymentV2 d t k)) \<longrightarrow>
            \<not> isl (fst (makePaymentTxn d ps w)) \<and>
            (\<exists>opts txn.
               calls (snd (makePaymentTxn d ps w)) =
                 calls w @ [GetKeypair, FetchAccount, NewPaymentV2 opts, SignPaymentV2 txn kp] \<and>
               newPaymentV2 d (config w) opts = Inr txn \<and>
               PaymentV2Options.nonce opts = add_one v \<and>
               (\<forall>n. v = Num n \<and> - 9007199254740992 \<le> n \<and> n < 9007199254740992 \<longrightarrow>
                  PaymentV2Options.nonce opts = Num (n + 1))))"
proof (intro conjI allI impI)
  assume "data r = None \<or>
          (\<exists>q. data r = Some q \<and>
             (account q = None \<or>
              (\<exists>acc. account q = Some acc \<and> speculativeNonce acc = None)))"
  then have "fresh_speculativeNonce r = None"
    by (simp only: fresh_speculativeNonce_None_iff)
  from makePaymentTxn_no_nonce [OF kp r this]
  show "makePaymentTxn d ps w =
          (Inl (Error ''Could not find speculative nonce for the current account''),
           w\<lparr>calls := calls w @ [GetKeypair, FetchAccount]\<rparr>)" .
next
  fix q acc v
  assume h: "data r = Some q \<and> account q = Some acc \<and> speculativeNonce acc = Some v \<and>
            (\<forall>s\<in>set ps. decodes d (SendDetails.payee s)) \<and>
            (\<forall>c opts. \<not> isl (newPaymentV2 d c opts)) \<and>
            (\<forall>t k. \<not> isl (signPaymentV2 d t k))"
  then have v: "fresh_speculativeNonce r = Some v"
    by (auto simp: fresh_speculativeNonce_Some_iff)
  from h have pay: "\<forall>s\<in>set ps. decodes d (SendDetails.payee s)"
    and new: "\<forall>c opts. \<not> isl (newPaymentV2 d c opts)"
    and sign: "\<forall>t k. \<not> isl (signPaymentV2 d t k)"
    by blast+
  from makePaymentTxn_returns [OF kp r v pay new sign, of w]
  obtain pays txn s where
    txn: "newPaymentV2 d (config w)
            \<lparr>PaymentV2Options.payer = Keypair.address kp, payments = pays, nonce = add_one v\<rparr> = Inr txn"
    and run: "makePaymentTxn d ps w =
      (Inr \<lparr>signedTxn = s, partialTxn = txnJson txn\<rparr>,
       w\<lparr>calls := calls w @
            [GetKeypair, FetchAccount,
             NewPaymentV2 \<lparr>PaymentV2Options.payer = Keypair.address kp, payments = pays, nonce = add_one v\<rparr>,
             SignPaymentV2 txn kp]\<rparr>)"
    by blast
  from run show "\<not> isl (fst (makePaymentTxn d ps w))" by simp
  show "\<exists>opts txn.
          calls (snd (makePaymentTxn d ps w)) =
            calls w @ [GetKeypair, FetchAccount, NewPaymentV2 opts, SignPaymentV2 txn kp] \<and>
          newPaymentV2 d (config w) opts = Inr txn \<and>
          PaymentV2Options.nonce opts = add_one v \<and>
          (\<forall>n. v = Num n \<and> - 9007199254740992 \<le> n \<and> n < 9007199254740992 \<longrightarrow>
             PaymentV2Options.nonce opts = Num (n + 1))"
    using txn run
    by (intro exI [of _ "\<lparr>PaymentV2Options.payer = Keypair.address kp, payments = pays, nonce = add_one v\<rparr>"]
        exI [of _ txn]) auto
qed

theorem payment_nonce_from_account_witness:
  "getKeypair sample_deps = Inr (Some sample_keypair) \<and>
   fetchAccount sample_deps = Inr \<lparr>data = Some sample_account\<rparr> \<and>
   account sample_account =
     Some \<lparr>Account.nonce = Some (Num 7), speculativeNonce = Some (Num 9)\<rparr> \<and>
   \<not> isl (fst (makePaymentTxn sample_deps sample_details sample_world)) \<and>
   (\<exists>opts txn.
      calls (snd (makePaymentTxn sample_deps sample_details sample_world)) =
        calls sample_world @
        [GetKeypair, FetchAccount, NewPaymentV2 opts, SignPaymentV2 txn sample_keypair] \<and>
      newPaymentV2 sample_deps (config sample_world) opts = Inr txn \<and>
      PaymentV2Options.nonce opts = Num 10) \<and>
   getKeypair no_nonce_deps = Inr (Some sample_keypair) \<and>
   fetchAccount no_nonce_deps = Inr \<lparr>data = Some no_nonce_account\<rparr> \<and>
   account no_nonce_account =
     Some \<lparr>Account.nonce = Some (Num 7), speculativeNonce = None\<rparr> \<and>
   makePaymentTxn no_nonce_deps sample_details sample_world =
     (Inl (Error ''Could not find speculative nonce for the current account''),
      \<lparr>config = None, calls = [GetKeypair, FetchAccount]\<rparr>) \<and>
   makePaymentTxn (sample_deps\<lparr>fetchAccount := Inr \<lparr>data = None\<rparr>\<rparr>) sample_details sample_world =
     (Inl (Error ''Could not find speculative nonce for the current account''),
      \<lparr>config = None, calls = [GetKeypair, FetchAccount]\<rparr>)"
proof -
  have new: "\<forall>c opts. \<not> isl (newPaymentV2 sample_deps c opts)"
    and sign: "\<forall>t k. \<not> isl (signPaymentV2 sample_deps t k)"
    using sample_sdk_returns by (simp_all add: sdk_returns_def)
  note ok = payment_nonce_from_account
    [OF sample_deps_fields(1) sample_deps_fields(3), of sample_details sample_world]
  from ok sample_details_decode new sign
  have one: "\<not> isl (fst (makePaymentTxn sample_deps sample_details sample_world)) \<and>
      (\<exists>opts txn.
         calls (snd (makePaymentTxn sample_deps sample_details sample_world)) =
           calls sample_world @
           [GetKeypair, FetchAccount, NewPaymentV2 opts, SignPaymentV2 txn sample_keypair] \<and>
         newPaymentV2 sample_deps (config sample_world) opts = Inr txn \<and>
         PaymentV2Options.nonce opts = Num 10)"
    by (simp add: sample_account_fields) 
  from payment_nonce_from_account
    [OF variant_accounts(4) variant_accounts(5), of sample_details sample_world]
  have two: "makePaymentTxn no_nonce_deps sample_details sample_world =
     (Inl (Error ''Could not find speculative nonce for the current account''),
      \<lparr>config = None, calls = [GetKeypair, FetchAccount]\<rparr>)"
    by (simp add: sample_account_fields sample_world_def)
  have kp3: "getKeypair (sample_deps\<lparr>fetchAccount := Inr \<lparr>data = None\<rparr>\<rparr>) = Inr (Some sample_keypair)"
    and r3: "fetchAccount (sample_deps\<lparr>fetchAccount := Inr \<lparr>data = None\<rparr>\<rparr>) = Inr \<lparr>data = None\<rparr>"
    by (simp_all add: sample_deps_fields)
  from payment_nonce_from_account [OF kp3 r3, of sample_details sample_world]
  have three: "makePaymentTxn (sample_deps\<lparr>fetchAccount := Inr \<lparr>data = None\<rparr>\<rparr>)
      sample_details sample_world =
     (Inl (Error ''Could not find speculative nonce for the current account''),
      \<lparr>config = None, calls = [GetKeypair, FetchAccount]\<rparr>)"
    by (simp add: sample_world_def)
  from one two three show ?thesis
    by (simp add: sample_deps_fields variant_accounts sample_account_fields)
qed

text \<open>
  C6. In \<open>makePaymentTxn\<close> and in \<open>calculatePaymentTxnFee\<close> the memo of every payment
  given to \<open>new PaymentV2\<close> is \<open>encodeMemoString\<close> of the memo of the corresponding
  payment detail: what the encoder returns, not the string it was given.
\<close>

theorem memo_encoded:
  "(makePaymentTxn d ps w = (Inr res, w1) \<longrightarrow>
      (\<exists>kp opts txn.
         calls w1 = calls w @ [GetKeypair, FetchAccount, NewPaymentV2 opts, SignPaymentV2 txn kp] \<and>
         map Payment.memo (PaymentV2Options.payments opts) =
           map (\<lambda>s. encodeMemoString d (SendDetails.memo s)) ps)) \<and>
   (calculatePaymentTxnFee d qs w = (Inr b, w2) \<longrightarrow>
      (\<exists>opts.
         calls w2 = calls w @ [NewPaymentV2 opts] \<and>
         map Payment.memo (PaymentV2Options.payments opts) =
           map (\<lambda>s. encodeMemoString d (SendDetails.memo s)) qs))"
proof (intro conjI impI)
  assume "makePaymentTxn d ps w = (Inr res, w1)"
  from makePaymentTxn_options [OF this]
  show "\<exists>kp opts txn.
         calls w1 = calls w @ [GetKeypair, FetchAccount, NewPaymentV2 opts, SignPaymentV2 txn kp] \<and>
         map Payment.memo (PaymentV2Options.payments opts) =
           map (\<lambda>s. encodeMemoString d (SendDetails.memo s)) ps"
    by blast
next
  assume "calculatePaymentTxnFee d qs w = (Inr b, w2)"
  from calculatePaymentTxnFee_options [OF this]
  show "\<exists>opts.
         calls w2 = calls w @ [NewPaymentV2 opts] \<and>
         map Payment.memo (PaymentV2Options.payments opts) =
           map (\<lambda>s. encodeMemoString d (SendDetails.memo s)) qs"
    by blast
qed

theorem memo_encoded_witness:
  "makePaymentTxn sample_deps sample_details sample_world = (Inr sample_result, sample_payment_world) \<and>
   calculatePaymentTxnFee sample_deps sample_details sample_world =
     (Inr \<lparr>integerBalance = Num 35000, type = dataCredit\<rparr>, sample_fee_world) \<and>
   map Payment.memo (PaymentV2Options.payments sample_options) = [Some ''aGk=''] \<and>
   map (\<lambda>s. encodeMemoString sample_deps (SendDetails.memo s)) sample_details = [Some ''aGk=''] \<and>
   map SendDetails.memo sample_details = [''hi'']"
proof -
  from memo_encoded
    [of sample_deps sample_details sample_world sample_result sample_payment_world
        sample_details "\<lparr>integerBalance = Num 35000, type = dataCredit\<rparr>" sample_fee_world]
    sample_payment_run sample_fee_run
  have "map Payment.memo (PaymentV2Options.payments sample_options) =
          map (\<lambda>s. encodeMemoString sample_deps (SendDetails.memo s)) sample_details"
    by (simp add: sample_worlds)
  moreover have "map Payment.memo (PaymentV2Options.payments sample_options) = [Some ''aGk='']"
    by (simp add: sample_options_def sample_payments_def)
  moreover have "map SendDetails.memo sample_details = [''hi'']"
    by (simp add: sample_details_def)
  ultimately show ?thesis using sample_payment_run sample_fee_run by simp
qed

text \<open>
  C7. When \<open>getKeypair\<close> yields no keypair, \<open>makeBurnTxn\<close> and \<open>makePaymentTxn\<close> reject
  with the error \<open>missing keypair\<close>. The log shows the one call to \<open>getKeypair\<close> and
  nothing after it: no account fetch, no constructor, no \<open>sign\<close>, no second attempt; the
  fee configuration is untouched. The error is the operation's result.
\<close>

theorem missing_keypair_rejects_first:
  assumes "getKeypair d = Inr None"
  shows "makeBurnTxn d a w = (Inl (Error ''missing keypair''), w\<lparr>calls := calls w @ [GetKeypair]\<rparr>) \<and>
         makePaymentTxn d ps w = (Inl (Error ''missing keypair''), w\<lparr>calls := calls w @ [GetKeypair]\<rparr>)"
  using assms by (simp add: makeBurnTxn_no_keypair makePaymentTxn_no_keypair)

theorem missing_keypair_rejects_first_witness:
  "getKeypair (sample_deps\<lparr>getKeypair := Inr None\<rparr>) = Inr None \<and>
   makeBurnTxn (sample_deps\<lparr>getKeypair := Inr None\<rparr>) sample_burn sample_world =
     (Inl (Error ''missing keypair''), \<lparr>config = None, calls = [GetKeypair]\<rparr>) \<and>
   makePaymentTxn (sample_deps\<lparr>getKeypair := Inr None\<rparr>) sample_details sample_world =
     (Inl (Error ''missing keypair''), \<lparr>config = None, calls = [GetKeypair]\<rparr>)"
  using missing_keypair_rejects_first
    [of "sample_deps\<lparr>getKeypair := Inr None\<rparr>" sample_burn sample_world sample_details]
  by (simp add: sample_world_def)

text \<open>
  C8, as stated, fails: an unset address is not the only condition under which
  \<open>calculatePaymentTxnFee\<close> throws. With a current account whose address is set but is
  not an address, \<open>Address.fromB58\<close> raises on it at line 149 and the operation fails.
\<close>

theorem fee_throws_on_undecodable_account:
  "currentAccount bogus_address_deps = Some \<lparr>CSAccount.address = ''bogus''\<rparr> \<and>
   ''bogus'' \<noteq> [] \<and>
   calculatePaymentTxnFee bogus_address_deps sample_details sample_world =
     (Inl (Error ''invalid address''), sample_world)"
  by (simp add: variant_accounts bogus_address_run)

text \<open>
  C8, amended. \<open>calculatePaymentTxnFee\<close> throws its own error when there is no current
  account or its address is empty, and, with the SDK calls it makes returning normally
  (\<open>Address.fromB58\<close> on a non-empty current address, on the payees
  \<open>Address.isValid\<close> accepts and on the dummy address; the constructor), in no other
  case: not for missing account data, not for a missing keypair. The nonce it gives the
  constructor is 1 when the cache has no entry, no account, no nonce or a nonce that is 0
  or \<open>NaN\<close>, and otherwise the cached \<open>nonce\<close> field plus one as JavaScript adds it. Its
  result, in data credits, is 0 when the constructed transaction has no fee (or the fee 0
  or \<open>NaN\<close>) and otherwise the transaction's fee.
\<close>

theorem fee_estimate_defaults:
  assumes valid: "valid_decodes d" and empty: "\<not> isl (EMPTY_B58_ADDRESS d)"
    and new: "\<forall>c opts. \<not> isl (newPaymentV2 d c opts)"
    and cur: "\<forall>acc. currentAccount d = Some acc \<and> CSAccount.address acc \<noteq> [] \<longrightarrow>
                decodes d (CSAccount.address acc)"
  shows "(isl (fst (calculatePaymentTxnFee d ps w)) \<longleftrightarrow>
            currentAccount d = None \<or>
            (\<exists>acc. currentAccount d = Some acc \<and> CSAccount.address acc = [])) \<and>
         (currentAccount d = None \<or>
          (\<exists>acc. currentAccount d = Some acc \<and> CSAccount.address acc = []) \<longrightarrow>
            calculatePaymentTxnFee d ps w =
              (Inl (Error ''Cannot calculate payment txn fee. Current account not found''), w)) \<and>
         ((\<exists>acc. currentAccount d = Some acc \<and> CSAccount.address acc \<noteq> []) \<longrightarrow>
            (\<exists>opts txn.
               calls (snd (calculatePaymentTxnFee d ps w)) = calls w @ [NewPaymentV2 opts] \<and>
               newPaymentV2 d (config w) opts = Inr txn \<and>
               (accountData d = None \<or>
                (\<exists>q. accountData d = Some q \<and>
                   (account q = None \<or>
                    (\<exists>a. account q = Some a \<and>
                       (Account.nonce a = None \<or> Account.nonce a = Some (Num 0) \<or>
                        Account.nonce a = Some NaN)))) \<longrightarrow>
                  PaymentV2Options.nonce opts = Num 1) \<and>
               (\<forall>q a v.
                  accountData d = Some q \<and> account q = Some a \<and> Account.nonce a = Some v \<and>
                  v \<noteq> Num 0 \<and> v \<noteq> NaN \<longrightarrow>
                  PaymentV2Options.nonce opts = add_one v) \<and>
               (PaymentV2.fee txn = None \<or> PaymentV2.fee txn = Some (Num 0) \<or>
                PaymentV2.fee txn = Some NaN \<longrightarrow>
                  fst (calculatePaymentTxnFee d ps w) =
                    Inr \<lparr>integerBalance = Num 0, type = dataCredit\<rparr>) \<and>
               (\<forall>v. PaymentV2.fee txn = Some v \<and> v \<noteq> Num 0 \<and> v \<noteq> NaN \<longrightarrow>
                  fst (calculatePaymentTxnFee d ps w) =
                    Inr \<lparr>integerBalance = v, type = dataCredit\<rparr>)))"
proof -
  have unset: "account_unset d \<longleftrightarrow>
      currentAccount d = None \<or> (\<exists>acc. currentAccount d = Some acc \<and> CSAccount.address acc = [])"
    by (auto simp: account_unset_def split: option.splits)
  have f0: "isl (fst (calculatePaymentTxnFee d ps w)) \<longleftrightarrow> account_unset d"
    using new valid empty cur by (rule calculatePaymentTxnFee_throws_iff)
  have one: "isl (fst (calculatePaymentTxnFee d ps w)) \<longleftrightarrow>
            currentAccount d = None \<or>
            (\<exists>acc. currentAccount d = Some acc \<and> CSAccount.address acc = [])"
    using f0 unset by simp
  have two: "currentAccount d = None \<or>
          (\<exists>acc. currentAccount d = Some acc \<and> CSAccount.address acc = []) \<longrightarrow>
            calculatePaymentTxnFee d ps w =
              (Inl (Error ''Cannot calculate payment txn fee. Current account not found''), w)"
    using unset by (simp add: calculatePaymentTxnFee_unset)
  have three: "(\<exists>acc. currentAccount d = Some acc \<and> CSAccount.address acc \<noteq> []) \<longrightarrow>
            (\<exists>opts txn.
               calls (snd (calculatePaymentTxnFee d ps w)) = calls w @ [NewPaymentV2 opts] \<and>
               newPaymentV2 d (config w) opts = Inr txn \<and>
               (accountData d = None \<or>
                (\<exists>q. accountData d = Some q \<and>
                   (account q = None \<or>
                    (\<exists>a. account q = Some a \<and>
                       (Account.nonce a = None \<or> Account.nonce a = Some (Num 0) \<or>
                        Account.nonce a = Some NaN)))) \<longrightarrow>
                  PaymentV2Options.nonce opts = Num 1) \<and>
               (\<forall>q a v.
                  accountData d = Some q \<and> account q = Some a \<and> Account.nonce a = Some v \<and>
                  v \<noteq> Num 0 \<and> v \<noteq> NaN \<longrightarrow>
                  PaymentV2Options.nonce opts = add_one v) \<and>
               (PaymentV2.fee txn = None \<or> PaymentV2.fee txn = Some (Num 0) \<or>
                PaymentV2.fee txn = Some NaN \<longrightarrow>
                  fst (calculatePaymentTxnFee d ps w) =
                    Inr \<lparr>integerBalance = Num 0, type = dataCredit\<rparr>) \<and>
               (\<forall>v. PaymentV2.fee txn = Some v \<and> v \<noteq> Num 0 \<and> v \<noteq> NaN \<longrightarrow>
                  fst (calculatePaymentTxnFee d ps w) =
                    Inr \<lparr>integerBalance = v, type = dataCredit\<rparr>))"
  proof
    assume "\<exists>acc. currentAccount d = Some acc \<and> CSAccount.address acc \<noteq> []"
    then obtain acc where acc: "currentAccount d = Some acc" "CSAccount.address acc \<noteq> []"
      by blast
    with cur obtain pa where pa: "fromB58 d (CSAccount.address acc) = Inr pa"
      unfolding decodes_def by (blast dest: not_isl_Inr)
    let ?n = "add_one (num_or (cached_nonce (accountData d)) (Num 0))"
    from calculatePaymentTxnFee_returns [OF acc pa valid empty new, of ps w]
    obtain pays txn where
      txn: "newPaymentV2 d (config w)
              \<lparr>PaymentV2Options.payer = pa, payments = pays, nonce = ?n\<rparr> = Inr txn"
      and run: "calculatePaymentTxnFee d ps w =
        (Inr \<lparr>integerBalance = num_or (PaymentV2.fee txn) (Num 0), type = dataCredit\<rparr>,
         w\<lparr>calls := calls w @
              [NewPaymentV2 \<lparr>PaymentV2Options.payer = pa, payments = pays, nonce = ?n\<rparr>]\<rparr>)"
      by blast
    have n1: "accountData d = None \<or>
                (\<exists>q. accountData d = Some q \<and>
                   (account q = None \<or>
                    (\<exists>a. account q = Some a \<and>
                       (Account.nonce a = None \<or> Account.nonce a = Some (Num 0) \<or>
                        Account.nonce a = Some NaN)))) \<longrightarrow> ?n = Num 1"
      by (blast intro: fee_nonce_default)
    have n2: "\<forall>q a v.
                  accountData d = Some q \<and> account q = Some a \<and> Account.nonce a = Some v \<and>
                  v \<noteq> Num 0 \<and> v \<noteq> NaN \<longrightarrow> ?n = add_one v"
      by (blast intro: fee_nonce_cached)
    have b1: "PaymentV2.fee txn = None \<or> PaymentV2.fee txn = Some (Num 0) \<or>
                PaymentV2.fee txn = Some NaN \<longrightarrow>
                num_or (PaymentV2.fee txn) (Num 0) = Num 0"
      by (auto simp: num_or_None num_or_Some)
    have b2: "\<forall>v. PaymentV2.fee txn = Some v \<and> v \<noteq> Num 0 \<and> v \<noteq> NaN \<longrightarrow>
                num_or (PaymentV2.fee txn) (Num 0) = v"
      by (auto simp: num_or_Some)
    show "\<exists>opts txn.
               calls (snd (calculatePaymentTxnFee d ps w)) = calls w @ [NewPaymentV2 opts] \<and>
               newPaymentV2 d (config w) opts = Inr txn \<and>
               (accountData d = None \<or>
                (\<exists>q. accountData d = Some q \<and>
                   (account q = None \<or>
                    (\<exists>a. account q = Some a \<and>
                       (Account.nonce a = None \<or> Account.nonce a = Some (Num 0) \<or>
                        Account.nonce a = Some NaN)))) \<longrightarrow>
                  PaymentV2Options.nonce opts = Num 1) \<and>
               (\<forall>q a v.
                  accountData d = Some q \<and> account q = Some a \<and> Account.nonce a = Some v \<and>
                  v \<noteq> Num 0 \<and> v \<noteq> NaN \<longrightarrow>
                  PaymentV2Options.nonce opts = add_one v) \<and>
               (PaymentV2.fee txn = None \<or> PaymentV2.fee txn = Some (Num 0) \<or>
                PaymentV2.fee txn = Some NaN \<longrightarrow>
                  fst (calculatePaymentTxnFee d ps w) =
                    Inr \<lparr>integerBalance = Num 0, type = dataCredit\<rparr>) \<and>
               (\<forall>v. PaymentV2.fee txn = Some v \<and> v \<noteq> Num 0 \<and> v \<noteq> NaN \<longrightarrow>
                  fst (calculatePaymentTxnFee d ps w) =
                    Inr \<lparr>integerBalance = v, type = dataCredit\<rparr>)"
      using txn run n1 n2 b1 b2
      by (intro exI [of _ "\<lparr>PaymentV2Options.payer = pa, payments = pays, nonce = ?n\<rparr>"]
          exI [of _ txn]) simp
  qed
  from one two three show ?thesis by blast
qed

theorem fee_estimate_defaults_witness:
  "accountData feeless_deps = None \<and>
   (\<exists>opts txn.
      calls (snd (calculatePaymentTxnFee feeless_deps sample_details sample_world)) =
        calls sample_world @ [NewPaymentV2 opts] \<and>
      newPaymentV2 feeless_deps (config sample_world) opts = Inr txn \<and>
      PaymentV2Options.nonce opts = Num 1 \<and> PaymentV2.fee txn = None \<and>
      fst (calculatePaymentTxnFee feeless_deps sample_details sample_world) =
        Inr \<lparr>integerBalance = Num 0, type = dataCredit\<rparr>) \<and>
   accountData null_account_deps = Some \<lparr>account = None\<rparr> \<and>
   (\<exists>opts txn.
      calls (snd (calculatePaymentTxnFee null_account_deps sample_details sample_world)) =
        calls sample_world @ [NewPaymentV2 opts] \<and>
      newPaymentV2 null_account_deps (config sample_world) opts = Inr txn \<and>
      PaymentV2Options.nonce opts = Num 1 \<and>
      fst (calculatePaymentTxnFee null_account_deps sample_details sample_world) =
        Inr \<lparr>integerBalance = Num 35000, type = dataCredit\<rparr>) \<and>
   accountData sample_deps = Some sample_account \<and>
   account sample_account =
     Some \<lparr>Account.nonce = Some (Num 7), speculativeNonce = Some (Num 9)\<rparr> \<and>
   (\<exists>opts txn.
      calls (snd (calculatePaymentTxnFee sample_deps sample_details sample_world)) =
        calls sample_world @ [NewPaymentV2 opts] \<and>
      newPaymentV2 sample_deps (config sample_world) opts = Inr txn \<and>
      PaymentV2Options.nonce opts = Num 8 \<and>
      fst (calculatePaymentTxnFee sample_deps sample_details sample_world) =
        Inr \<lparr>integerBalance = Num 35000, type = dataCredit\<rparr>) \<and>
   calculatePaymentTxnFee (sample_deps\<lparr>currentAccount := None\<rparr>) sample_details sample_world =
     (Inl (Error ''Cannot calculate payment txn fee. Current account not found''), sample_world) \<and>
   currentAccount empty_address_deps = Some \<lparr>CSAccount.address = []\<rparr> \<and>
   calculatePaymentTxnFee empty_address_deps sample_details sample_world =
     (Inl (Error ''Cannot calculate payment txn fee. Current account not found''), sample_world)"
proof -
  have fee_none: "\<And>c opts txn. newPaymentV2 feeless_deps c opts = Inr txn \<Longrightarrow> PaymentV2.fee txn = None"
    by (auto simp: feeless_deps_def)
  have fee_null: "\<And>c opts txn. newPaymentV2 null_account_deps c opts = Inr txn \<Longrightarrow>
      PaymentV2.fee txn = Some (Num 35000)"
    by (auto simp: null_account_deps_def sample_deps_fields sample_newPaymentV2_def)
  have fee_sample: "\<And>c opts txn. newPaymentV2 sample_deps c opts = Inr txn \<Longrightarrow>
      PaymentV2.fee txn = Some (Num 35000)"
    by (auto simp: sample_deps_fields sample_newPaymentV2_def)
  have ne: "Num 35000 \<noteq> Num 0" "Num 35000 \<noteq> NaN" "Num 7 \<noteq> Num 0" "Num 7 \<noteq> NaN"
    by simp_all
  have null_cache: "\<exists>q. accountData null_account_deps = Some q \<and> account q = None"
    by (simp add: variant_accounts)
  have cache: "\<exists>q a. accountData sample_deps = Some q \<and> account q = Some a \<and>
      Account.nonce a = Some (Num 7)"
    by (simp add: sample_deps_fields sample_account_fields)
  have new: "\<And>d. sdk_returns d \<Longrightarrow> \<forall>c opts. \<not> isl (newPaymentV2 d c opts)"
    by (simp add: sdk_returns_def)
  have cur_alice: "\<And>d. currentAccount d = Some \<lparr>CSAccount.address = alice_b58\<rparr> \<Longrightarrow>
      decodes d alice_b58 \<Longrightarrow>
      \<forall>acc. currentAccount d = Some acc \<and> CSAccount.address acc \<noteq> [] \<longrightarrow>
        decodes d (CSAccount.address acc)"
    by auto
  have set_alice: "\<And>d. currentAccount d = Some \<lparr>CSAccount.address = alice_b58\<rparr> \<Longrightarrow>
      \<exists>acc. currentAccount d = Some acc \<and> CSAccount.address acc \<noteq> []"
    by (simp add: alice_nonempty)
  note fl = sample_variant_decodes [OF variant_fields(13) variant_fields(14)]
  from fee_estimate_defaults
    [OF fl(1) fl(2) new [OF variant_sdk_returns(7)]
        cur_alice [OF feeless_deps_fields(1) fl(3)], of sample_details sample_world]
    set_alice [OF feeless_deps_fields(1)] feeless_deps_fields(2)
  obtain opts1 txn1 where a:
    "calls (snd (calculatePaymentTxnFee feeless_deps sample_details sample_world)) =
        calls sample_world @ [NewPaymentV2 opts1]"
    "newPaymentV2 feeless_deps (config sample_world) opts1 = Inr txn1"
    "PaymentV2Options.nonce opts1 = Num 1"
    "PaymentV2.fee txn1 = None"
    "fst (calculatePaymentTxnFee feeless_deps sample_details sample_world) =
       Inr \<lparr>integerBalance = Num 0, type = dataCredit\<rparr>"
    using fee_none by blast
  then have first: "\<exists>opts txn.
      calls (snd (calculatePaymentTxnFee feeless_deps sample_details sample_world)) =
        calls sample_world @ [NewPaymentV2 opts] \<and>
      newPaymentV2 feeless_deps (config sample_world) opts = Inr txn \<and>
      PaymentV2Options.nonce opts = Num 1 \<and> PaymentV2.fee txn = None \<and>
      fst (calculatePaymentTxnFee feeless_deps sample_details sample_world) =
        Inr \<lparr>integerBalance = Num 0, type = dataCredit\<rparr>"
    by blast
  note nl = sample_variant_decodes [OF variant_fields(11) variant_fields(12)]
  from fee_estimate_defaults
    [OF nl(1) nl(2) new [OF variant_sdk_returns(6)]
        cur_alice [OF variant_accounts(15) nl(3)], of sample_details sample_world]
    set_alice [OF variant_accounts(15)] null_cache
  obtain opts2 txn2 where b:
    "calls (snd (calculatePaymentTxnFee null_account_deps sample_details sample_world)) =
        calls sample_world @ [NewPaymentV2 opts2]"
    "newPaymentV2 null_account_deps (config sample_world) opts2 = Inr txn2"
    "PaymentV2Options.nonce opts2 = Num 1"
    "fst (calculatePaymentTxnFee null_account_deps sample_details sample_world) =
       Inr \<lparr>integerBalance = Num 35000, type = dataCredit\<rparr>"
    using fee_null ne by blast
  then have second: "\<exists>opts txn.
      calls (snd (calculatePaymentTxnFee null_account_deps sample_details sample_world)) =
        calls sample_world @ [NewPaymentV2 opts] \<and>
      newPaymentV2 null_account_deps (config sample_world) opts = Inr txn \<and>
      PaymentV2Options.nonce opts = Num 1 \<and>
      fst (calculatePaymentTxnFee null_account_deps sample_details sample_world) =
        Inr \<lparr>integerBalance = Num 35000, type = dataCredit\<rparr>"
    by auto
  from fee_estimate_defaults
    [OF sample_valid_decodes sample_known_decode(3) new [OF sample_sdk_returns]
        cur_alice [OF sample_deps_fields(2) sample_known_decode(1)],
        of sample_details sample_world]
    set_alice [OF sample_deps_fields(2)] cache
  obtain opts3 txn3 where c:
    "calls (snd (calculatePaymentTxnFee sample_deps sample_details sample_world)) =
        calls sample_world @ [NewPaymentV2 opts3]"
    "newPaymentV2 sample_deps (config sample_world) opts3 = Inr txn3"
    "PaymentV2Options.nonce opts3 = add_one (Num 7)"
    "fst (calculatePaymentTxnFee sample_deps sample_details sample_world) =
       Inr \<lparr>integerBalance = Num 35000, type = dataCredit\<rparr>"
    using fee_sample ne by blast
  then have third: "\<exists>opts txn.
      calls (snd (calculatePaymentTxnFee sample_deps sample_details sample_world)) =
        calls sample_world @ [NewPaymentV2 opts] \<and>
      newPaymentV2 sample_deps (config sample_world) opts = Inr txn \<and>
      PaymentV2Options.nonce opts = Num 8 \<and>
      fst (calculatePaymentTxnFee sample_deps sample_details sample_world) =
        Inr \<lparr>integerBalance = Num 35000, type = dataCredit\<rparr>"
    by auto
  have valid4: "valid_decodes (sample_deps\<lparr>currentAccount := None\<rparr>)"
    using sample_valid_decodes by (simp add: valid_decodes_def decodes_def)
  have empty4: "\<not> isl (EMPTY_B58_ADDRESS (sample_deps\<lparr>currentAccount := None\<rparr>))"
    using sample_known_decode(3) by (simp add: EMPTY_B58_ADDRESS_def)
  have new4: "\<forall>c opts. \<not> isl (newPaymentV2 (sample_deps\<lparr>currentAccount := None\<rparr>) c opts)"
    using sample_sdk_returns by (simp add: sdk_returns_def)
  have cur4: "\<forall>acc. currentAccount (sample_deps\<lparr>currentAccount := None\<rparr>) = Some acc \<and>
                CSAccount.address acc \<noteq> [] \<longrightarrow>
                decodes (sample_deps\<lparr>currentAccount := None\<rparr>) (CSAccount.address acc)"
    by simp
  from fee_estimate_defaults [OF valid4 empty4 new4 cur4, of sample_details sample_world]
  have fourth: "calculatePaymentTxnFee (sample_deps\<lparr>currentAccount := None\<rparr>) sample_details
        sample_world =
     (Inl (Error ''Cannot calculate payment txn fee. Current account not found''), sample_world)"
    by simp
  note el = sample_variant_decodes [OF variant_fields(7) variant_fields(8)]
  have cur5: "\<forall>acc. currentAccount empty_address_deps = Some acc \<and>
                CSAccount.address acc \<noteq> [] \<longrightarrow>
                decodes empty_address_deps (CSAccount.address acc)"
    by (auto simp: variant_accounts)
  from fee_estimate_defaults
    [OF el(1) el(2) new [OF variant_sdk_returns(4)] cur5, of sample_details sample_world]
  have fifth: "calculatePaymentTxnFee empty_address_deps sample_details sample_world =
     (Inl (Error ''Cannot calculate payment txn fee. Current account not found''), sample_world)"
    by (simp add: variant_accounts)
  from first second third fourth fifth show ?thesis
    by (simp add: feeless_deps_fields variant_accounts sample_deps_fields sample_account_fields)
qed



text \<open>
  C10. In the colour hook a \<open>TESTNET\<close> net type wins over every other input: the result
  is \<open>lividBrown\<close> when \<open>muted\<close> is true and \<open>testnet\<close> otherwise, whatever
  \<open>l1Network\<close> and \<open>defaultColor\<close> are. With another net type and \<open>l1Network\<close>
  \<open>solana\<close> the result is \<open>solanaPurple\<close>, whatever \<open>defaultColor\<close> is. When neither
  holds and no \<open>defaultColor\<close> is given the result is \<open>undefined\<close>.
\<close>

theorem network_color_precedence:
  "(netType p = Some TESTNET \<and> muted p = Some True \<longrightarrow>
      useNetworkColor TESTNET l1Network p = Some ''lividBrown'') \<and>
   (netType p = Some TESTNET \<and> muted p \<noteq> Some True \<longrightarrow>
      useNetworkColor TESTNET l1Network p = Some ''testnet'') \<and>
   (netType p \<noteq> Some TESTNET \<and> l1Network = ''solana'' \<longrightarrow>
      useNetworkColor TESTNET l1Network p = Some ''solanaPurple'') \<and>
   (netType p \<noteq> Some TESTNET \<and> l1Network \<noteq> ''solana'' \<and> defaultColor p = None \<longrightarrow>
      useNetworkColor TESTNET l1Network p = None)"
  by (simp add: useNetworkColor_def)

theorem network_color_precedence_witness:
  "useNetworkColor 16 ''solana'' \<lparr>defaultColor = Some ''primaryText'', netType = Some 16, muted = Some True\<rparr>
     = Some ''lividBrown'' \<and>
   useNetworkColor 16 ''solana'' \<lparr>defaultColor = Some ''primaryText'', netType = Some 16, muted = None\<rparr>
     = Some ''testnet'' \<and>
   useNetworkColor 16 ''solana'' \<lparr>defaultColor = Some ''primaryText'', netType = Some 0, muted = Some True\<rparr>
     = Some ''solanaPurple'' \<and>
   useNetworkColor 16 ''helium'' \<lparr>defaultColor = None, netType = None, muted = Some True\<rparr> = None"
  using
    network_color_precedence [of "\<lparr>defaultColor = Some ''primaryText'', netType = Some 16, muted = Some True\<rparr>" 16 "''solana''"]
    network_color_precedence [of "\<lparr>defaultColor = Some ''primaryText'', netType = Some 16, muted = None\<rparr>" 16 "''solana''"]
    network_color_precedence [of "\<lparr>defaultColor = Some ''primaryText'', netType = Some 0, muted = Some True\<rparr>" 16 "''solana''"]
    network_color_precedence [of "\<lparr>defaultColor = None, netType = None, muted = Some True\<rparr>" 16 "''helium''"]
  by simp

end
